(* ===== verification/Cart_Prelude.thy ===== *)
theory Cart_Prelude
  imports Main
begin

text \<open>
  Shared vocabulary of the shopping-cart development: the collections of
  facts the component theories feed their lemmas into, and the generic
  facts about lists, folds and association lists that several components
  use.  The JavaScript source works on arrays with \<open>map\<close>, \<open>filter\<close>,
  \<open>find\<close>, \<open>some\<close> and \<open>reduce\<close>; the lemmas below are the list
  algebra those calls need.
\<close>

named_theorems cart_defs
  "definitions of the model unfolded when a concrete state is evaluated"

named_theorems keeps_wf
  "one-step preservation lemmas of the well-formedness invariants"

subsection \<open>Array.prototype.reduce with an additive step\<close>

text \<open>
  \<open>xs.reduce((sum, x) => sum + f(x), a)\<close> is a left fold.  It sums the
  mapped list, which is what all reasoning about the subtotal uses.
\<close>

lemma foldl_plus_sum_list:
  "foldl (\<lambda>s x. s + f x) a xs = a + sum_list (map f xs)"
  for a :: "'b::monoid_add"
  by (induction xs arbitrary: a) (simp_all add: add.assoc)

subsection \<open>Key-preserving maps over arrays\<close>

text \<open>
  The cart updaters rewrite the array element by element with
  \<open>prevCart.map(x => x.id === k ? {...x, quantity: ...} : x)\<close>.  Such a map
  keeps the key of every element, so the list of keys is unchanged.
\<close>

lemma map_key_cond_update [simp]:
  assumes "\<And>x. key (g x) = key x"
  shows "map key (map (\<lambda>x. if P x then g x else x) xs) = map key xs"
  using assms by (induction xs) simp_all

lemma map_key_comp_cond_update [simp]:
  assumes "\<And>x. key (g x) = key x"
  shows "map (key \<circ> (\<lambda>x. if P x then g x else x)) xs = map key xs"
  using assms by (induction xs) simp_all

lemma map_cond_update_absent:
  "k \<notin> key ` set c \<Longrightarrow> map (\<lambda>x. if key x = k then g x else x) c = c"
  by (induction c) auto

lemma set_cond_update_cases:
  "y \<in> set (map (\<lambda>x. if P x then g x else x) xs) \<Longrightarrow>
   (\<exists>x\<in>set xs. P x \<and> y = g x) \<or> (y \<in> set xs \<and> \<not> P y)"
  by auto

lemma filter_cond_update_id:
  assumes "\<And>x. x \<in> set xs \<Longrightarrow> Q x" and "\<And>x. x \<in> set xs \<Longrightarrow> P x \<Longrightarrow> Q (g x)"
  shows "filter Q (map (\<lambda>x. if P x then g x else x) xs) = map (\<lambda>x. if P x then g x else x) xs"
  using assms by (induction xs) auto

subsection \<open>Association lists keyed by a field\<close>

text \<open>
  An array of records with a key field is read as the finite map from each
  key to the first record with that key, as \<open>Array.prototype.find\<close> does.
\<close>

lemma map_of_filter_key:
  "map_of (map (\<lambda>x. (key x, val x)) (filter (\<lambda>x. key x \<noteq> k) xs)) =
   (map_of (map (\<lambda>x. (key x, val x)) xs))(k := None)"
  by (induction xs) (auto simp: fun_eq_iff)

lemma map_of_map_key_None:
  "(map_of (map (\<lambda>x. (key x, val x)) xs) k = None) = (k \<notin> key ` set xs)"
  by (induction xs) auto

lemma find_key_Some_map_of:
  "List.find (\<lambda>x. key x = k) xs = Some y \<Longrightarrow>
   map_of (map (\<lambda>x. (key x, val x)) xs) k = Some (val y)"
  by (induction xs) (auto split: if_splits)

lemma find_key_None_iff:
  "(List.find (\<lambda>x. key x = k) xs = None) = (k \<notin> key ` set xs)"
  by (induction xs) auto

subsection \<open>Sums over a list with unique keys\<close>

text \<open>
  Over a list whose keys are unique, a sum that is zero everywhere but at
  one key picks the element with that key.
\<close>

lemma sum_list_single_key:
  assumes "distinct (map key P)" and "p0 \<in> set P"
  shows "(\<Sum>p\<leftarrow>P. if key p = key p0 then h p else 0) = (h p0 :: 'b::comm_monoid_add)"
  using assms
proof (induction P)
  case Nil
  then show ?case by simp
next
  case (Cons a P)
  show ?case
  proof (cases "a = p0")
    case True
    with Cons.prems(1) have "\<forall>p\<in>set P. key p \<noteq> key p0" by (auto simp: image_iff)
    then have "(\<Sum>p\<leftarrow>P. if key p = key p0 then h p else 0) = 0"
      by (induction P) auto
    with True show ?thesis by simp
  next
    case False
    with Cons.prems have p0: "p0 \<in> set P" and "key a \<noteq> key p0" by auto
    with Cons.prems(1) Cons.IH show ?thesis by simp
  qed
qed

end
