(* ===== verification/Catalog.thy ===== *)
theory Catalog
  imports Cart_Prelude
begin

text \<open>
  The constants at the top of \<open>src/src/App.js\<close> (lines 4--12): the product
  type, the four catalog entries \<open>PRODUCTS\<close>, the promotional item
  \<open>FREE_GIFT\<close> and the spending threshold \<open>THRESHOLD\<close>.  A cart line item
  is the product object spread into a new object with a \<open>quantity\<close> field,
  \<open>{ ...product, quantity }\<close>, which is a record extension of \<open>product\<close>.
  JavaScript numbers are modelled as \<open>int\<close>: every value the program
  computes is an integer far below \<open>2^53\<close>, where doubles are exact.
  The field \<open>id\<close> is called \<open>pid\<close>, since \<open>id\<close> is HOL's identity.
\<close>

record product =
  pid :: int
  name :: string
  price :: int

record item = product +
  quantity :: int

definition PRODUCTS :: "product list" where
  "PRODUCTS =
    [\<lparr>pid = 1, name = ''Laptop'', price = 500\<rparr>,
     \<lparr>pid = 2, name = ''Smartphone'', price = 300\<rparr>,
     \<lparr>pid = 3, name = ''Headphones'', price = 100\<rparr>,
     \<lparr>pid = 4, name = ''Smartwatch'', price = 150\<rparr>]"

definition FREE_GIFT :: product where
  "FREE_GIFT = \<lparr>pid = 99, name = ''Wireless Mouse'', price = 0\<rparr>"

definition THRESHOLD :: int where
  "THRESHOLD = 1000"

text \<open>\<open>{ ...product, quantity }\<close>: copy the product's fields, add the quantity.\<close>

definition mk_item :: "product \<Rightarrow> int \<Rightarrow> item" where
  "mk_item p q = \<lparr>pid = pid p, name = name p, price = price p, quantity = q\<rparr>"

text \<open>The cart line item the promotion rule appends, \<open>{ ...FREE_GIFT, quantity: 1 }\<close>.\<close>

definition gift_item :: item where
  "gift_item = mk_item FREE_GIFT 1"

abbreviation GIFT_ID :: int where
  "GIFT_ID \<equiv> pid FREE_GIFT"

declare PRODUCTS_def [cart_defs] FREE_GIFT_def [cart_defs] THRESHOLD_def [cart_defs]
  mk_item_def [cart_defs] gift_item_def [cart_defs]

subsection \<open>Facts about the constants\<close>

lemma mk_item_fields [simp]:
  "pid (mk_item p q) = pid p" "name (mk_item p q) = name p"
  "price (mk_item p q) = price p" "quantity (mk_item p q) = q"
  by (simp_all add: mk_item_def)

lemma gift_item_fields [simp]:
  "pid gift_item = GIFT_ID" "price gift_item = 0" "quantity gift_item = 1"
  by (simp_all add: gift_item_def FREE_GIFT_def)

lemma GIFT_ID_val [simp]: "GIFT_ID = 99"
  by (simp add: FREE_GIFT_def)

lemma THRESHOLD_pos: "0 < THRESHOLD"
  by (simp add: THRESHOLD_def)

lemma PRODUCTS_ids: "map pid PRODUCTS = [1, 2, 3, 4]"
  by (simp add: PRODUCTS_def)

lemma PRODUCTS_distinct_ids: "distinct (map pid PRODUCTS)"
  by (simp add: PRODUCTS_ids)

lemma PRODUCTS_not_gift: "p \<in> set PRODUCTS \<Longrightarrow> pid p \<noteq> GIFT_ID"
  by (auto simp: PRODUCTS_def)

lemma PRODUCTS_price_nonneg: "p \<in> set PRODUCTS \<Longrightarrow> 0 \<le> price p"
  by (auto simp: PRODUCTS_def)

end
