(* ===== verification/Cart.thy ===== *)
theory Cart
  imports Catalog
begin

text \<open>
  The cart array and the functions the handlers of \<open>src/src/App.js\<close> pass to
  \<open>setCart\<close>.  In React, \<open>setCart(prev => f(prev))\<close> queues the updater
  \<open>f\<close>; each definition below is one such updater, a pure function from the
  previous array to the next one, and the derived value \<open>subtotal\<close>
  (lines 19--21).  The theory proves that every updater keeps the cart
  well formed (keys unique, quantities at least 1), what each updater does
  on each branch, and that each refines an operation on the abstract cart,
  the finite map from product id to quantity.
\<close>

type_synonym cart = "item list"

subsection \<open>Derived state\<close>

text \<open>
  Lines 19--21: \<open>cart.filter(item => item.id !== FREE_GIFT.id)
  .reduce((sum, item) => sum + item.price * item.quantity, 0)\<close>.
\<close>

definition subtotal :: "cart \<Rightarrow> int" where
  "subtotal c =
     foldl (\<lambda>sum x. sum + price x * quantity x) 0 (filter (\<lambda>x. pid x \<noteq> GIFT_ID) c)"

text \<open>Line 24: \<open>cart.some(item => item.id === FREE_GIFT.id)\<close>.\<close>

definition hasGift :: "cart \<Rightarrow> bool" where
  "hasGift c = list_ex (\<lambda>x. pid x = GIFT_ID) c"

subsection \<open>The updaters passed to setCart\<close>

text \<open>
  Lines 43--54, the updater of \<open>addToCart\<close>; \<open>q\<close> is the pending quantity the
  handler read before queueing it.
\<close>

definition addToCart_upd :: "product \<Rightarrow> int \<Rightarrow> cart \<Rightarrow> cart" where
  "addToCart_upd p q prevCart =
     (case List.find (\<lambda>x. pid x = pid p) prevCart of
        Some _ \<Rightarrow>
          map (\<lambda>x. if pid x = pid p then x\<lparr>quantity := quantity x + q\<rparr> else x) prevCart
      | None \<Rightarrow> prevCart @ [mk_item p q])"

text \<open>Lines 58--66, the updater of \<open>updateCartQuantity\<close>.\<close>

definition updateCartQuantity_upd :: "int \<Rightarrow> int \<Rightarrow> cart \<Rightarrow> cart" where
  "updateCartQuantity_upd productId delta prevCart =
     filter (\<lambda>x. 0 < quantity x)
       (map (\<lambda>x. if pid x = productId then x\<lparr>quantity := max (quantity x + delta) 1\<rparr> else x)
          prevCart)"

text \<open>Line 71, the updater of \<open>removeFromCart\<close> (its guard is in the handler).\<close>

definition removeFromCart_upd :: "int \<Rightarrow> cart \<Rightarrow> cart" where
  "removeFromCart_upd productId prevCart = filter (\<lambda>x. pid x \<noteq> productId) prevCart"

text \<open>Lines 26 and 29, the two updaters of the promotion effect.\<close>

definition add_gift :: "cart \<Rightarrow> cart" where
  "add_gift prev = prev @ [gift_item]"

definition drop_gift :: "cart \<Rightarrow> cart" where
  "drop_gift prev = filter (\<lambda>x. pid x \<noteq> GIFT_ID) prev"

subsection \<open>Well-formedness\<close>

text \<open>
  Invariants I1 and I3 of the specification: at most one line per product
  id, and every line has quantity at least 1.
\<close>

definition cart_wf :: "cart \<Rightarrow> bool" where
  "cart_wf c \<longleftrightarrow> distinct (map pid c) \<and> list_all (\<lambda>x. 1 \<le> quantity x) c"

subsection \<open>The abstract cart\<close>

text \<open>
  What the cart promises: a finite map from product id to quantity.  The
  abstraction reads the array as JavaScript's \<open>find\<close> does, first match
  wins.  The abstract operations are the three user operations on the
  cart performed on that map as the code performs them: adding merges
  quantities, an update clamps at 1 (section 4.1 of the specification
  instead removes a line whose quantity reaches 0), removing deletes
  the key.
\<close>

definition cart_qty :: "cart \<Rightarrow> int \<rightharpoonup> int" where
  "cart_qty c = map_of (map (\<lambda>x. (pid x, quantity x)) c)"

definition add_abs :: "(int \<rightharpoonup> int) \<Rightarrow> int \<Rightarrow> int \<Rightarrow> (int \<rightharpoonup> int)" where
  "add_abs m k q = m(k \<mapsto> (case m k of None \<Rightarrow> q | Some v \<Rightarrow> v + q))"

definition update_abs :: "(int \<rightharpoonup> int) \<Rightarrow> int \<Rightarrow> int \<Rightarrow> (int \<rightharpoonup> int)" where
  "update_abs m k d = (case m k of None \<Rightarrow> m | Some v \<Rightarrow> m(k \<mapsto> max (v + d) 1))"

definition remove_abs :: "(int \<rightharpoonup> int) \<Rightarrow> int \<Rightarrow> (int \<rightharpoonup> int)" where
  "remove_abs m k = m(k := None)"

declare subtotal_def [cart_defs] hasGift_def [cart_defs] addToCart_upd_def [cart_defs]
  updateCartQuantity_upd_def [cart_defs] removeFromCart_upd_def [cart_defs]
  add_gift_def [cart_defs] drop_gift_def [cart_defs] cart_wf_def [cart_defs]

subsection \<open>Subtotal and gift presence\<close>

lemma subtotal_sum_list:
  "subtotal c = sum_list (map (\<lambda>x. price x * quantity x) (filter (\<lambda>x. pid x \<noteq> GIFT_ID) c))"
  by (simp add: subtotal_def foldl_plus_sum_list)

lemma subtotal_Nil [simp]: "subtotal [] = 0"
  by (simp add: subtotal_def)

lemma subtotal_append [simp]: "subtotal (c @ d) = subtotal c + subtotal d"
  by (simp add: subtotal_sum_list)

lemma subtotal_single [simp]:
  "subtotal [x] = (if pid x = GIFT_ID then 0 else price x * quantity x)"
  by (simp add: subtotal_sum_list)

lemma hasGift_iff: "hasGift c \<longleftrightarrow> GIFT_ID \<in> pid ` set c"
  by (auto simp: hasGift_def list_ex_iff)

lemma subtotal_add_gift [simp]: "subtotal (add_gift c) = subtotal c"
  by (simp add: add_gift_def)

lemma subtotal_drop_gift [simp]: "subtotal (drop_gift c) = subtotal c"
  by (simp add: subtotal_sum_list drop_gift_def)

lemma hasGift_add_gift [simp]: "hasGift (add_gift c)"
  by (simp add: add_gift_def hasGift_iff)

lemma hasGift_drop_gift [simp]: "\<not> hasGift (drop_gift c)"
  by (auto simp: drop_gift_def hasGift_iff)

lemma hasGift_Nil [simp]: "\<not> hasGift []"
  by (simp add: hasGift_def)

subsection \<open>The two branches of addToCart\<close>

lemma addToCart_upd_present:
  "pid p \<in> pid ` set c \<Longrightarrow>
   addToCart_upd p q c = map (\<lambda>x. if pid x = pid p then x\<lparr>quantity := quantity x + q\<rparr> else x) c"
  using find_key_None_iff [of pid "pid p" c]
  by (auto simp: addToCart_upd_def split: option.split)

lemma addToCart_upd_absent:
  "pid p \<notin> pid ` set c \<Longrightarrow> addToCart_upd p q c = c @ [mk_item p q]"
  using find_key_None_iff [of pid "pid p" c]
  by (simp add: addToCart_upd_def)

lemma addToCart_upd_keys_raw:
  "map pid (addToCart_upd p q c) =
     (if pid p \<in> pid ` set c then map pid c else map pid c @ [pid p])"
  by (simp add: addToCart_upd_present addToCart_upd_absent)

subsection \<open>The filter of updateCartQuantity is dead code\<close>

text \<open>
  The updater clamps the new quantity at 1 (\<open>Math.max(q + delta, 1)\<close>) and
  then drops the lines whose quantity is not positive.  On a well-formed
  cart no line has a non-positive quantity after the clamp, so the filter
  keeps every line: the updater is the clamped map alone.
\<close>

lemma updateCartQuantity_upd_map:
  "cart_wf c \<Longrightarrow>
   updateCartQuantity_upd k d c =
     map (\<lambda>x. if pid x = k then x\<lparr>quantity := max (quantity x + d) 1\<rparr> else x) c"
  unfolding updateCartQuantity_upd_def
  by (rule filter_cond_update_id) (auto simp: cart_wf_def list_all_iff)

lemma updateCartQuantity_upd_keys:
  "cart_wf c \<Longrightarrow> map pid (updateCartQuantity_upd k d c) = map pid c"
  by (simp add: updateCartQuantity_upd_map)

subsection \<open>Every updater keeps the cart well formed\<close>

lemma cart_wf_Nil [simp]: "cart_wf []"
  by (simp add: cart_wf_def)

lemma list_all_cond_update:
  "list_all Q c \<Longrightarrow> (\<And>x. Q x \<Longrightarrow> P x \<Longrightarrow> Q (g x)) \<Longrightarrow>
   list_all Q (map (\<lambda>x. if P x then g x else x) c)"
  by (induction c) auto

lemma addToCart_upd_wf [keeps_wf]:
  assumes "cart_wf c" and "1 \<le> q"
  shows "cart_wf (addToCart_upd p q c)"
proof (cases "pid p \<in> pid ` set c")
  case True
  with assms show ?thesis
    by (auto simp: addToCart_upd_present cart_wf_def intro!: list_all_cond_update)
next
  case False
  with assms show ?thesis
    by (simp add: addToCart_upd_absent cart_wf_def)
qed

lemma updateCartQuantity_upd_wf [keeps_wf]:
  "cart_wf c \<Longrightarrow> cart_wf (updateCartQuantity_upd k d c)"
  by (simp add: updateCartQuantity_upd_map) (auto simp: cart_wf_def intro!: list_all_cond_update)

lemma removeFromCart_upd_wf [keeps_wf]:
  "cart_wf c \<Longrightarrow> cart_wf (removeFromCart_upd k c)"
  by (auto simp: removeFromCart_upd_def cart_wf_def distinct_map_filter list_all_iff)

lemma add_gift_wf [keeps_wf]:
  "cart_wf c \<Longrightarrow> \<not> hasGift c \<Longrightarrow> cart_wf (add_gift c)"
  by (auto simp: add_gift_def cart_wf_def hasGift_iff)

lemma drop_gift_wf [keeps_wf]:
  "cart_wf c \<Longrightarrow> cart_wf (drop_gift c)"
  by (auto simp: drop_gift_def cart_wf_def distinct_map_filter list_all_iff)

subsection \<open>What the user updaters do to the gift line\<close>

lemma hasGift_keys: "hasGift c \<longleftrightarrow> GIFT_ID \<in> set (map pid c)"
  by (simp add: hasGift_iff)

lemma hasGift_addToCart_upd:
  "hasGift (addToCart_upd p q c) \<longleftrightarrow> hasGift c \<or> pid p = GIFT_ID"
  unfolding hasGift_keys addToCart_upd_keys_raw by auto

lemma subtotal_addToCart_gift:
  "pid p = GIFT_ID \<Longrightarrow> subtotal (addToCart_upd p q c) = subtotal c"
proof (cases "pid p \<in> pid ` set c")
  case True
  assume "pid p = GIFT_ID"
  then have "filter (\<lambda>x. pid x \<noteq> GIFT_ID)
      (map (\<lambda>x. if pid x = pid p then x\<lparr>quantity := quantity x + q\<rparr> else x) c) =
    filter (\<lambda>x. pid x \<noteq> GIFT_ID) c"
    by (induction c) auto
  with True show ?thesis
    by (simp add: addToCart_upd_present subtotal_def)
next
  case False
  assume "pid p = GIFT_ID"
  with False show ?thesis by (simp add: addToCart_upd_absent)
qed

lemma hasGift_updateCartQuantity_upd:
  "cart_wf c \<Longrightarrow> hasGift (updateCartQuantity_upd k d c) = hasGift c"
  unfolding hasGift_keys by (simp only: updateCartQuantity_upd_keys)

lemma hasGift_removeFromCart_upd:
  "k \<noteq> GIFT_ID \<Longrightarrow> hasGift (removeFromCart_upd k c) = hasGift c"
  by (auto simp: hasGift_iff removeFromCart_upd_def)

subsection \<open>Refinement of the abstract cart\<close>

lemma dom_cart_qty: "dom (cart_qty c) = pid ` set c"
  by (simp add: cart_qty_def dom_map_of_conv_image_fst image_image)

lemma cart_qty_cond_update:
  "cart_qty (map (\<lambda>x. if pid x = k then x\<lparr>quantity := h (quantity x)\<rparr> else x) c) =
   (case cart_qty c k of None \<Rightarrow> cart_qty c | Some v \<Rightarrow> (cart_qty c)(k \<mapsto> h v))"
  by (induction c) (auto simp: cart_qty_def fun_eq_iff split: option.split)

lemma cart_qty_None_iff: "cart_qty c k = None \<longleftrightarrow> k \<notin> pid ` set c"
  by (simp add: cart_qty_def map_of_map_key_None)

lemma cart_qty_snoc_new:
  assumes "pid x \<notin> pid ` set c"
  shows "cart_qty (c @ [x]) = (cart_qty c)(pid x \<mapsto> quantity x)"
proof
  fix k
  show "cart_qty (c @ [x]) k = ((cart_qty c)(pid x \<mapsto> quantity x)) k"
    using assms cart_qty_None_iff [of c "pid x"]
    by (auto simp: cart_qty_def map_add_def split: option.split)
qed

subsection \<open>Properties of the updaters\<close>

text \<open>
  C6.  \<open>updateCartQuantity\<close> never removes a line from a well-formed cart:
  the list of product ids is unchanged whatever the delta, so pressing
  "-" on a line with quantity 1 leaves it at quantity 1.  The
  specification (section 4.1 and scenario 3) says the line is removed when
  its quantity would reach 0.
\<close>

theorem updateCartQuantity_never_removes:
  "cart_wf c \<Longrightarrow> map pid (updateCartQuantity_upd k d c) = map pid c"
  by (rule updateCartQuantity_upd_keys)

text \<open>
  C7.  \<open>addToCart\<close> keeps the lines and their order: an id already in
  the cart stays where it is, a new id is appended last.
\<close>

theorem addToCart_upd_keys:
  "map pid (addToCart_upd p q c) =
     (if pid p \<in> pid ` set c then map pid c else map pid c @ [pid p])"
  by (rule addToCart_upd_keys_raw)

text \<open>
  The three user updaters refine the abstract operations.  \<open>addToCart\<close>
  needs no hypothesis: the array is read as \<open>find\<close> reads it.
\<close>

lemma cart_qty_addToCart:
  "cart_qty (addToCart_upd p q c) = add_abs (cart_qty c) (pid p) q"
proof (cases "pid p \<in> pid ` set c")
  case True
  then obtain v where v: "cart_qty c (pid p) = Some v"
    using cart_qty_None_iff [of c "pid p"] by auto
  show ?thesis
    using True v cart_qty_cond_update [where h = "\<lambda>v. v + q" and k = "pid p" and c = c]
    by (simp add: addToCart_upd_present add_abs_def)
next
  case False
  then show ?thesis
    using cart_qty_None_iff [of c "pid p"]
    by (simp add: addToCart_upd_absent cart_qty_snoc_new add_abs_def)
qed

lemma cart_qty_updateCartQuantity:
  "cart_wf c \<Longrightarrow> cart_qty (updateCartQuantity_upd k d c) = update_abs (cart_qty c) k d"
  using cart_qty_cond_update [where h = "\<lambda>v. max (v + d) 1" and k = k and c = c]
  by (simp add: updateCartQuantity_upd_map update_abs_def)

lemma cart_qty_removeFromCart:
  "cart_qty (removeFromCart_upd k c) = remove_abs (cart_qty c) k"
  by (simp add: removeFromCart_upd_def remove_abs_def cart_qty_def map_of_filter_key)

subsection \<open>Witnesses\<close>

text \<open>A cart holding one laptop, the line the "-" button of scenario 3 acts on.\<close>

theorem updateCartQuantity_never_removes_witness:
  "cart_wf [mk_item (hd PRODUCTS) 1] \<and>
   map pid (updateCartQuantity_upd 1 (-1) [mk_item (hd PRODUCTS) 1]) = [1]"
  using updateCartQuantity_never_removes [of "[mk_item (hd PRODUCTS) 1]" 1 "-1"]
  by (simp add: cart_defs)

end
