(* ===== verification/Quantities.thy ===== *)
theory Quantities
  imports Catalog
begin

text \<open>
  The quantity selector of \<open>src/src/App.js\<close>: the \<open>quantities\<close> object
  (line 16), keyed by product id, its updater in \<open>handleQuantityChange\<close>
  (lines 34--39), and the JavaScript default \<open>quantities[id] || 1\<close>
  (lines 36, 42 and 91).  The object is a finite map; the default is a
  function on its lookup result that treats every falsy value (a missing
  key, or the number 0) as 1.  The theory proves that every stored
  value is at least 1 (invariant I4) and how one click changes the map.
\<close>

type_synonym quantities = "int \<rightharpoonup> int"

text \<open>\<open>v || 1\<close> on a number or \<open>undefined\<close>: \<open>undefined\<close> and \<open>0\<close> are falsy.\<close>

definition js_or_one :: "int option \<Rightarrow> int" where
  "js_or_one v = (case v of None \<Rightarrow> 1 | Some n \<Rightarrow> if n = 0 then 1 else n)"

text \<open>
  Lines 35--38: \<open>setQuantities(prev => { const newQty =
  Math.max((prev[productId] || 1) + delta, 1); return { ...prev,
  [productId]: newQty }; })\<close>.
\<close>

definition handleQuantityChange_upd :: "int \<Rightarrow> int \<Rightarrow> quantities \<Rightarrow> quantities" where
  "handleQuantityChange_upd productId delta prev =
     (let newQty = max (js_or_one (prev productId) + delta) 1 in prev(productId \<mapsto> newQty))"

text \<open>Invariant I4: every stored pending quantity is at least 1.\<close>

definition quantities_wf :: "quantities \<Rightarrow> bool" where
  "quantities_wf m \<longleftrightarrow> (\<forall>v\<in>ran m. 1 \<le> v)"

declare js_or_one_def [cart_defs] handleQuantityChange_upd_def [cart_defs]
  quantities_wf_def [cart_defs]

lemma quantities_wf_empty [simp]: "quantities_wf Map.empty"
  by (simp add: quantities_wf_def)

lemma quantities_wf_lookup: "quantities_wf m \<Longrightarrow> m k = Some v \<Longrightarrow> 1 \<le> v"
  by (auto simp: quantities_wf_def ran_def)

lemma quantities_wf_upd:
  "quantities_wf m \<Longrightarrow> 1 \<le> v \<Longrightarrow> quantities_wf (m(k \<mapsto> v))"
  by (auto simp: quantities_wf_def ran_def)

lemma js_or_one_wf:
  "quantities_wf m \<Longrightarrow> js_or_one (m k) = (case m k of None \<Rightarrow> 1 | Some v \<Rightarrow> v)"
  by (auto simp: js_or_one_def dest: quantities_wf_lookup split: option.split)

lemma js_or_one_pos:
  "quantities_wf m \<Longrightarrow> 1 \<le> js_or_one (m k)"
  by (auto simp: js_or_one_wf dest: quantities_wf_lookup split: option.split)

lemma handleQuantityChange_upd_wf [keeps_wf]:
  "quantities_wf m \<Longrightarrow> quantities_wf (handleQuantityChange_upd k d m)"
  by (simp add: handleQuantityChange_upd_def Let_def quantities_wf_upd)

text \<open>
  C10.  One click on a product's "+" or "-" sets that product's pending
  quantity to its previous value (1 when unset) plus the delta, clamped
  at 1, and leaves every other product's pending quantity as it was.
\<close>

theorem handleQuantityChange_clamped:
  assumes "quantities_wf m"
  shows "handleQuantityChange_upd k d m k =
           Some (max ((case m k of None \<Rightarrow> 1 | Some v \<Rightarrow> v) + d) 1)
       \<and> (\<forall>j. j \<noteq> k \<longrightarrow> handleQuantityChange_upd k d m j = m j)"
  using assms by (simp add: handleQuantityChange_upd_def js_or_one_wf)

theorem handleQuantityChange_clamped_witness:
  "quantities_wf (Map.empty(3 \<mapsto> 2)) \<and>
   handleQuantityChange_upd 3 (-5) (Map.empty(3 \<mapsto> 2)) 3 = Some 1"
  using handleQuantityChange_clamped [of "Map.empty(3 \<mapsto> 2)" 3 "-5"]
  by (simp add: quantities_wf_def)

end
