(* ===== verification/App.thy ===== *)
theory App
  imports Cart Quantities
begin

text \<open>
  The state of the \<open>App\<close> component of \<open>src/src/App.js\<close> and its
  handlers.  The three \<open>useState\<close> hooks (lines 15--17) are the fields of
  the record \<open>app_state\<close>.  A handler does not change the state: it reads
  the rendered state and queues updates (\<open>setCart(f)\<close>,
  \<open>setQuantities(f)\<close>, \<open>setGiftAdded(b)\<close>), which React applies in
  order when it commits.  Each handler is therefore a function from the
  rendered state to the list of updates it queues, and \<open>commit\<close> applies
  such a list.  The promotion effect (lines 23--32) is modelled the same
  way.  The theory proves that the effect establishes invariant I2, keeps
  the cart well formed, and has nothing left to do when it runs again on
  the state it produced (property P4).
\<close>

record app_state =
  cart :: cart
  quantities :: quantities
  giftAdded :: bool

text \<open>A queued state update; a state setter either takes an updater or a value.\<close>

datatype update =
    SetCart "cart \<Rightarrow> cart"
  | SetQuantities "quantities \<Rightarrow> quantities"
  | SetGiftAdded bool

fun apply_update :: "app_state \<Rightarrow> update \<Rightarrow> app_state" where
  "apply_update s (SetCart f) = s\<lparr>cart := f (cart s)\<rparr>"
| "apply_update s (SetQuantities f) = s\<lparr>quantities := f (quantities s)\<rparr>"
| "apply_update s (SetGiftAdded b) = s\<lparr>giftAdded := b\<rparr>"

definition commit :: "update list \<Rightarrow> app_state \<Rightarrow> app_state" where
  "commit us s = foldl apply_update s us"

text \<open>Lines 15--17: \<open>useState([])\<close>, \<open>useState({})\<close>, \<open>useState(false)\<close>.\<close>

definition init_state :: app_state where
  "init_state = \<lparr>cart = [], quantities = Map.empty, giftAdded = False\<rparr>"

subsection \<open>Handlers\<close>

text \<open>Lines 34--39.\<close>

definition handleQuantityChange :: "int \<Rightarrow> int \<Rightarrow> app_state \<Rightarrow> update list" where
  "handleQuantityChange productId delta s =
     [SetQuantities (handleQuantityChange_upd productId delta)]"

text \<open>
  Lines 41--55.  The pending quantity is read from the rendered
  \<open>quantities\<close> when the handler runs (line 42), not inside the updater.
\<close>

definition addToCart :: "product \<Rightarrow> app_state \<Rightarrow> update list" where
  "addToCart p s =
     (let quantity = js_or_one (quantities s (pid p)) in [SetCart (addToCart_upd p quantity)])"

text \<open>Lines 57--67.\<close>

definition updateCartQuantity :: "int \<Rightarrow> int \<Rightarrow> app_state \<Rightarrow> update list" where
  "updateCartQuantity productId delta s = [SetCart (updateCartQuantity_upd productId delta)]"

text \<open>Lines 69--72: the early return queues nothing.\<close>

definition removeFromCart :: "int \<Rightarrow> app_state \<Rightarrow> update list" where
  "removeFromCart productId s =
     (if productId = GIFT_ID then [] else [SetCart (removeFromCart_upd productId)])"

text \<open>
  Lines 23--32, the body of the effect: it reads the committed cart and
  the subtotal derived from it.
\<close>

definition promotion_effect :: "app_state \<Rightarrow> update list" where
  "promotion_effect s =
     (let hasGift = hasGift (cart s); st = subtotal (cart s) in
      if THRESHOLD \<le> st \<and> \<not> hasGift then [SetCart add_gift, SetGiftAdded True]
      else if st < THRESHOLD \<and> hasGift then [SetCart drop_gift, SetGiftAdded False]
      else [])"

text \<open>The state after one run of the effect and the commit of what it queued.\<close>

definition promote :: "app_state \<Rightarrow> app_state" where
  "promote s = commit (promotion_effect s) s"

text \<open>
  The promotion invariant I2: the gift is in the cart exactly when the
  subtotal reaches the threshold.
\<close>

definition promo_consistent :: "app_state \<Rightarrow> bool" where
  "promo_consistent s \<longleftrightarrow> (hasGift (cart s) \<longleftrightarrow> THRESHOLD \<le> subtotal (cart s))"

declare commit_def [cart_defs] init_state_def [cart_defs] handleQuantityChange_def [cart_defs]
  addToCart_def [cart_defs] updateCartQuantity_def [cart_defs] removeFromCart_def [cart_defs]
  promotion_effect_def [cart_defs] promote_def [cart_defs] promo_consistent_def [cart_defs]

subsection \<open>Commit\<close>

lemma commit_Nil [simp]: "commit [] s = s"
  by (simp add: commit_def)

lemma commit_Cons [simp]: "commit (u # us) s = commit us (apply_update s u)"
  by (simp add: commit_def)

lemma commit_append: "commit (us @ vs) s = commit vs (commit us s)"
  by (simp add: commit_def)

subsection \<open>The promotion effect\<close>

lemma promotion_effect_cases:
  "promotion_effect s = [] \<and> promo_consistent s \<and> promote s = s
   \<or> THRESHOLD \<le> subtotal (cart s) \<and> \<not> hasGift (cart s)
       \<and> promote s = s\<lparr>cart := add_gift (cart s), giftAdded := True\<rparr>
   \<or> subtotal (cart s) < THRESHOLD \<and> hasGift (cart s)
       \<and> promote s = s\<lparr>cart := drop_gift (cart s), giftAdded := False\<rparr>"
  by (auto simp: promotion_effect_def promote_def promo_consistent_def Let_def)

lemma promotion_effect_Nil_iff: "promotion_effect s = [] \<longleftrightarrow> promo_consistent s"
  by (auto simp: promotion_effect_def promo_consistent_def Let_def)

lemma promote_consistent: "promo_consistent (promote s)"
  using promotion_effect_cases [of s]
  by (auto simp: promo_consistent_def promotion_effect_Nil_iff)

lemma promote_quantities [simp]: "quantities (promote s) = quantities s"
  using promotion_effect_cases [of s] by (auto simp: promotion_effect_Nil_iff)

lemma promote_wf [keeps_wf]: "cart_wf (cart s) \<Longrightarrow> cart_wf (cart (promote s))"
  using promotion_effect_cases [of s] by (auto intro: add_gift_wf drop_gift_wf)

lemma promote_subtotal [simp]: "subtotal (cart (promote s)) = subtotal (cart s)"
  using promotion_effect_cases [of s] by auto

lemma promote_id: "promo_consistent s \<Longrightarrow> promote s = s"
  using promotion_effect_Nil_iff [of s] by (simp add: promote_def)

lemma promote_effect_done: "promotion_effect (promote s) = []"
  using promote_consistent [of s] by (simp add: promotion_effect_Nil_iff)

text \<open>
  The flag \<open>giftAdded\<close> is only written by the effect.  After a user
  update that may add the gift to a consistent cart only without changing
  the subtotal (as \<open>addToCart(FREE_GIFT)\<close> would) and never takes it away,
  the effect leaves the flag telling whether the gift is in the cart.
\<close>

lemma promote_flag:
  assumes cons: "promo_consistent s0"
    and flag: "giftAdded s1 = hasGift (cart s0)"
    and keep: "hasGift (cart s0) \<Longrightarrow> hasGift (cart s1)"
    and same: "hasGift (cart s1) \<Longrightarrow> \<not> hasGift (cart s0) \<Longrightarrow> subtotal (cart s1) = subtotal (cart s0)"
  shows "giftAdded (promote s1) = hasGift (cart (promote s1))"
  using promotion_effect_cases [of s1] cons flag keep same
  by (auto simp: promo_consistent_def)

text \<open>
  C4.  The promotion rule is idempotent (P4): on the state it has just
  produced it queues nothing, so applying it twice gives the state of
  applying it once, and React's re-run of the effect after its own
  \<open>setCart\<close> ends there.
\<close>

theorem promotion_effect_idempotent:
  "promotion_effect (promote s) = [] \<and> promote (promote s) = promote s"
proof -
  have none: "promotion_effect (promote s) = []"
    by (rule promote_effect_done)
  then have "promote (promote s) = promote s"
    by (simp add: promote_def [of "promote s"])
  with none show ?thesis ..
qed

end
