(* ===== verification/Runtime.thy ===== *)
theory Runtime
  imports App
begin

text \<open>
  How React runs the component of \<open>src/src/App.js\<close>: a user event calls
  one handler; React commits the queued updates and re-renders; when the
  commit replaced the \<open>cart\<close> array (a dependency of the effect, line 32)
  the effect runs after the render, and its own \<open>setCart\<close> makes React
  render and run it again, until a run queues nothing.  This loop is the
  function \<open>settle\<close>, with fuel counting effect runs; two runs are always
  enough (the second queues nothing), so \<open>dispatch\<close> never runs out.
  Events are handled one at a time, each to completion, as React does for
  discrete clicks.  The reachable states are those of any sequence of
  events after the mount; the invariant \<open>app_inv\<close> holds in all of them.
  The states a click's commit writes to the DOM before the effect has
  run are the predicate \<open>painted\<close>: React 17 and earlier run
  \<open>useEffect\<close> after the browser paints them; React 18 flushes the
  effects of a click before the browser paints, so there they are
  committed but not shown.
\<close>

text \<open>The four handlers a click can call, with their arguments.\<close>

datatype event =
    QuantityChange int int
  | AddToCart product
  | UpdateCartQuantity int int
  | RemoveFromCart int

fun handler :: "event \<Rightarrow> app_state \<Rightarrow> update list" where
  "handler (QuantityChange k d) = handleQuantityChange k d"
| "handler (AddToCart p) = addToCart p"
| "handler (UpdateCartQuantity k d) = updateCartQuantity k d"
| "handler (RemoveFromCart k) = removeFromCart k"

fun is_SetCart :: "update \<Rightarrow> bool" where
  "is_SetCart (SetCart _) = True"
| "is_SetCart _ = False"

text \<open>
  The effect's dependencies \<open>[subtotal, cart]\<close> change exactly when a
  \<open>setCart\<close> was committed: every updater returns a new array.
\<close>

definition touches_cart :: "update list \<Rightarrow> bool" where
  "touches_cart us = list_ex is_SetCart us"

fun settle :: "nat \<Rightarrow> app_state \<Rightarrow> app_state option" where
  "settle 0 s = None"
| "settle (Suc n) s = (case promotion_effect s of [] \<Rightarrow> Some s | us \<Rightarrow> settle n (commit us s))"

text \<open>Effect runs allowed per event: the run that acts and the one that finds nothing to do.\<close>

definition effect_fuel :: nat where
  "effect_fuel = 2"

definition dispatch :: "event \<Rightarrow> app_state \<Rightarrow> app_state option" where
  "dispatch e s =
     (let us = handler e s; s' = commit us s in
      if touches_cart us then settle effect_fuel s' else Some s')"

text \<open>The first render runs the effect once on the initial state.\<close>

definition mount :: "app_state option" where
  "mount = settle effect_fuel init_state"

fun run :: "event list \<Rightarrow> app_state \<Rightarrow> app_state option" where
  "run [] s = Some s"
| "run (e # es) s = (case dispatch e s of None \<Rightarrow> None | Some s' \<Rightarrow> run es s')"

inductive reachable :: "app_state \<Rightarrow> bool" where
  mounted: "mount = Some s \<Longrightarrow> reachable s"
| step: "reachable s \<Longrightarrow> dispatch e s = Some s' \<Longrightarrow> reachable s'"

text \<open>A state committed to the DOM right after an event, before its effect runs.\<close>

inductive painted :: "app_state \<Rightarrow> bool" where
  after_commit: "reachable s \<Longrightarrow> painted (commit (handler e s) s)"

definition app_inv :: "app_state \<Rightarrow> bool" where
  "app_inv s \<longleftrightarrow> cart_wf (cart s) \<and> quantities_wf (quantities s) \<and> promo_consistent s
     \<and> giftAdded s = hasGift (cart s)"

declare touches_cart_def [cart_defs] app_inv_def [cart_defs]

subsection \<open>The render loop ends\<close>

lemma settle_Suc_Suc: "settle (Suc (Suc n)) s = Some (promote s)"
proof (cases "promotion_effect s")
  case Nil
  then show ?thesis by (simp add: promote_def)
next
  case (Cons u us)
  then have "commit (u # us) s = promote s" by (simp add: promote_def)
  with Cons show ?thesis by (simp add: promote_effect_done)
qed

lemma settle_effect_fuel: "settle effect_fuel s = Some (promote s)"
  unfolding effect_fuel_def numeral_2_eq_2 by (rule settle_Suc_Suc)

lemma dispatch_eq:
  "dispatch e s =
     Some (if touches_cart (handler e s) then promote (commit (handler e s) s)
           else commit (handler e s) s)"
  by (simp add: dispatch_def Let_def settle_effect_fuel)

declare dispatch_eq [cart_defs]

text \<open>The three cart handlers queue one cart updater; the effect then settles the state.\<close>

lemma dispatch_SetCart:
  "handler e s = [SetCart f] \<Longrightarrow> dispatch e s = Some (promote (s\<lparr>cart := f (cart s)\<rparr>))"
  by (simp add: dispatch_eq touches_cart_def)

lemma mount_eq: "mount = Some init_state"
  using THRESHOLD_pos
  by (simp add: mount_def settle_effect_fuel promote_def promotion_effect_def init_state_def)

subsection \<open>The invariant\<close>

lemma app_inv_init: "app_inv init_state"
  using THRESHOLD_pos by (simp add: app_inv_def init_state_def promo_consistent_def)

text \<open>
  A cart update from an invariant state, followed by the effect: the
  common step of the three cart handlers.
\<close>

lemma app_inv_cart_step:
  assumes inv: "app_inv s" and wf: "cart_wf c1"
    and keep: "hasGift (cart s) \<Longrightarrow> hasGift c1"
    and same: "hasGift c1 \<Longrightarrow> \<not> hasGift (cart s) \<Longrightarrow> subtotal c1 = subtotal (cart s)"
  shows "app_inv (promote (s\<lparr>cart := c1\<rparr>))"
proof -
  have flag: "giftAdded (promote (s\<lparr>cart := c1\<rparr>)) = hasGift (cart (promote (s\<lparr>cart := c1\<rparr>)))"
    by (rule promote_flag [of s]) (use inv keep same in \<open>simp_all add: app_inv_def\<close>)
  show ?thesis
    using inv wf flag promote_wf [of "s\<lparr>cart := c1\<rparr>"] promote_consistent [of "s\<lparr>cart := c1\<rparr>"]
    by (simp add: app_inv_def)
qed

lemma dispatch_app_inv [keeps_wf]:
  assumes inv: "app_inv s" and d: "dispatch e s = Some s'"
  shows "app_inv s'"
proof (cases e)
  case (QuantityChange k d)
  with inv d show ?thesis
    by (auto simp: dispatch_eq app_inv_def handleQuantityChange_def touches_cart_def
        promo_consistent_def intro: handleQuantityChange_upd_wf)
next
  case (AddToCart p)
  let ?q = "js_or_one (quantities s (pid p))"
  have "app_inv (promote (s\<lparr>cart := addToCart_upd p ?q (cart s)\<rparr>))"
    using inv
    by (intro app_inv_cart_step)
      (auto simp: app_inv_def hasGift_addToCart_upd subtotal_addToCart_gift
        intro: addToCart_upd_wf js_or_one_pos)
  with AddToCart d show ?thesis
    by (simp add: dispatch_eq addToCart_def touches_cart_def Let_def)
next
  case (UpdateCartQuantity k d)
  have "app_inv (promote (s\<lparr>cart := updateCartQuantity_upd k d (cart s)\<rparr>))"
    using inv
    by (intro app_inv_cart_step)
      (auto simp: app_inv_def hasGift_updateCartQuantity_upd intro: updateCartQuantity_upd_wf)
  with UpdateCartQuantity \<open>dispatch e s = Some s'\<close> show ?thesis
    by (simp add: dispatch_eq updateCartQuantity_def touches_cart_def)
next
  case (RemoveFromCart k)
  show ?thesis
  proof (cases "k = GIFT_ID")
    case True
    with RemoveFromCart inv d show ?thesis
      by (simp add: dispatch_eq removeFromCart_def touches_cart_def)
  next
    case False
    have "app_inv (promote (s\<lparr>cart := removeFromCart_upd k (cart s)\<rparr>))"
      using inv False
      by (intro app_inv_cart_step)
        (auto simp: app_inv_def hasGift_removeFromCart_upd intro: removeFromCart_upd_wf)
    with RemoveFromCart False d show ?thesis
      by (simp add: dispatch_eq removeFromCart_def touches_cart_def)
  qed
qed

lemma reachable_app_inv: "reachable s \<Longrightarrow> app_inv s"
proof (induction rule: reachable.induct)
  case (mounted s)
  then show ?case by (simp add: mount_eq app_inv_init)
next
  case (step s e s')
  from step.IH step.hyps(2) show ?case by (rule dispatch_app_inv)
qed

lemma app_inv_promo: "app_inv s \<Longrightarrow> promo_consistent s \<and> giftAdded s = hasGift (cart s)"
  by (simp add: app_inv_def)

subsection \<open>Frames painted before the effect\<close>

lemma reachable_init: "reachable init_state"
  by (rule reachable.mounted) (rule mount_eq)

inductive_cases painted_elim: "painted s"

lemma commit_handler_wf:
  assumes inv: "app_inv t"
  shows "cart_wf (cart (commit (handler e t) t)) \<and> quantities_wf (quantities (commit (handler e t) t))"
proof -
  have wf: "cart_wf (cart t)" and qwf: "quantities_wf (quantities t)"
    using inv by (simp_all add: app_inv_def)
  show ?thesis
  proof (cases e)
    case (QuantityChange k d)
    with wf qwf show ?thesis
      by (simp add: handleQuantityChange_def handleQuantityChange_upd_wf)
  next
    case (AddToCart p)
    with wf qwf show ?thesis
      by (simp add: addToCart_def Let_def addToCart_upd_wf js_or_one_pos)
  next
    case (UpdateCartQuantity k d)
    with wf qwf show ?thesis
      by (simp add: updateCartQuantity_def updateCartQuantity_upd_wf)
  next
    case (RemoveFromCart k)
    with wf qwf show ?thesis
      by (simp add: removeFromCart_def removeFromCart_upd_wf)
  qed
qed

text \<open>
  C15.  Invariants I1, I3 and I4 already hold in the frame committed before
  the effect runs: only the promotion invariant I2 waits for the effect.
\<close>

theorem painted_wf:
  "painted s \<Longrightarrow> cart_wf (cart s) \<and> quantities_wf (quantities s)"
  by (erule painted_elim) (simp add: commit_handler_wf reachable_app_inv)

theorem painted_wf_witness:
  "painted (commit (handler (AddToCart (hd PRODUCTS)) init_state) init_state)
   \<and> cart_wf (cart (commit (handler (AddToCart (hd PRODUCTS)) init_state) init_state))"
proof -
  have p: "painted (commit (handler (AddToCart (hd PRODUCTS)) init_state) init_state)"
    by (rule painted.after_commit) (rule reachable_init)
  with painted_wf [OF p] show ?thesis by simp
qed

subsection \<open>Runs of events\<close>

lemma run_eq: "run es s = Some (foldl (\<lambda>t e. the (dispatch e t)) s es)"
  by (induction es arbitrary: s) (simp_all add: dispatch_eq)

lemma reachable_run: "reachable s \<Longrightarrow> run es s = Some s' \<Longrightarrow> reachable s'"
proof (induction es arbitrary: s)
  case Nil
  then show ?case by simp
next
  case (Cons e es)
  obtain t where t: "dispatch e s = Some t"
    using dispatch_eq by blast
  from Cons.prems(1) t have "reachable t" by (rule reachable.step)
  moreover from Cons.prems(2) t have "run es t = Some s'" by simp
  ultimately show ?case by (rule Cons.IH)
qed

lemma reachable_run_init: "reachable (the (run es init_state))"
  using reachable_run [OF reachable_init, of es] by (simp add: run_eq)

subsection \<open>Properties of event handling\<close>

text \<open>
  C5.  Removal protection (P5): \<open>removeFromCart\<close> with the gift's id
  returns before calling \<open>setCart\<close>, so handling it changes nothing.
\<close>

theorem removeFromCart_gift_noop: "dispatch (RemoveFromCart GIFT_ID) s = Some s"
  by (simp add: dispatch_eq removeFromCart_def touches_cart_def)

text \<open>
  The promotion invariant does not hold in every committed frame.
  The rule is a \<open>useEffect\<close>, so the commit of "Add to Cart" with two
  laptops pending writes a page with a subtotal of 1000 and no gift in
  the cart; the gift appears one commit later.  Whether the browser
  paints that frame depends on the React version, which the sources do
  not fix; the specification (section 5) places the effect before the
  next paint, which only React 18's flush of click effects guarantees.
\<close>

theorem painted_frame_without_gift:
  "\<exists>s. painted s \<and> THRESHOLD \<le> subtotal (cart s) \<and> \<not> hasGift (cart s)"
proof -
  let ?s0 = "the (run [QuantityChange 1 1] init_state)"
  let ?s = "commit (handler (AddToCart (hd PRODUCTS)) ?s0) ?s0"
  have "painted ?s"
    by (rule painted.after_commit) (rule reachable_run_init)
  moreover have "THRESHOLD \<le> subtotal (cart ?s) \<and> \<not> hasGift (cart ?s)"
    by (simp add: cart_defs)
  ultimately show ?thesis by blast
qed

end
