(* ===== verification/Dom.thy ===== *)
theory Dom
  imports Complex_Main Runtime
begin

text \<open>
  The page \<open>App\<close> returns (lines 74--165 of \<open>src/src/App.js\<close>) as the
  element tree React writes to the DOM.  An element has a tag, its
  attributes (the class name, the \<open>key\<close> of a list child, an
  \<open>onClick\<close> handler, the inline width of the progress bar) and its
  children; a text node is a sequence of pieces: literal text, a number
  printed in decimal, and the non-ASCII glyphs of the source (the emoji
  and the rupee sign), named.  \<open>{cond && <X/>}\<close> renders nothing when
  \<open>cond\<close> is false, so it is a list of zero or one children.  Two
  functions read the tree: \<open>clicks\<close>, the \<open>onClick\<close> handlers of its
  buttons in document order (from which \<open>View\<close> defines the clicks a
  user can make), and \<open>texts\<close>, its text nodes.  The theory proves when
  two states give the same tree and what the page says about an empty
  cart.
\<close>

text \<open>
  The non-ASCII characters of the source: U+1F6D2, U+1F381, U+1F389,
  U+1F6CD U+FE0F and U+20B9.
\<close>

text \<open>
  Line 113: the bar's width in per cent, as the exact rational; the
  JavaScript double can differ from it in the last place (55.00000000000001
  at a subtotal of 550), which does not move it out of 0--100.
\<close>

definition progress :: "int \<Rightarrow> rat" where
  "progress st = min (of_int st / of_int THRESHOLD * 100) 100"

datatype glyph = Shopping_cart | Wrapped_gift | Party_popper | Shopping_bags | Rupee_sign

datatype piece = Str string | Num int | Sym glyph

datatype attr = Class string | Key int | OnClick event | Width rat

datatype node = Elem string "attr list" "node list" | Text "piece list"

text \<open>Lines 80--102: one row of the catalog, reading \<open>quantities\<close> of the rendered state.\<close>

definition product_node :: "app_state \<Rightarrow> product \<Rightarrow> node" where
  "product_node s product =
     Elem ''div'' [Key (pid product), Class ''product'']
       [Elem ''p'' [] [Text [Str (name product), Str '' - '', Sym Rupee_sign, Num (price product)]],
        Elem ''div'' [Class ''quantity-controls'']
          [Elem ''button'' [Class ''plus-minus'', OnClick (QuantityChange (pid product) (-1))]
             [Text [Str ''-'']],
           Elem ''span'' [] [Text [Num (js_or_one (quantities s (pid product)))]],
           Elem ''button'' [Class ''plus-minus'', OnClick (QuantityChange (pid product) 1)]
             [Text [Str ''+'']]],
        Elem ''button'' [Class ''sisindri'', OnClick (AddToCart product)] [Text [Str ''Add to Cart'']]]"

text \<open>Lines 133--159: one cart line; the buttons only when it is not the gift.\<close>

definition cart_node :: "item \<Rightarrow> node" where
  "cart_node item =
     Elem ''div'' [Key (pid item), Class ''cart-items'']
       (Elem ''p'' [] [Text [Str (name item), Str '' - '', Sym Rupee_sign, Num (price item),
                             Str '' x '', Num (quantity item)]]
        # (if pid item \<noteq> GIFT_ID then
             [Elem ''div'' []
                [Elem ''button'' [Class ''red'', OnClick (UpdateCartQuantity (pid item) (-1))]
                   [Text [Str ''-'']],
                 Elem ''button'' [Class ''green'', OnClick (UpdateCartQuantity (pid item) 1)]
                   [Text [Str ''+'']],
                 Elem ''button'' [Class ''sisindri'', OnClick (RemoveFromCart (pid item))]
                   [Text [Str ''Remove'']]]]
           else []))"

text \<open>Lines 117--121: the message under the progress bar.\<close>

definition message_text :: "int \<Rightarrow> piece list" where
  "message_text st =
     (if THRESHOLD \<le> st then [Sym Wrapped_gift, Str '' You've earned the free gift!'']
      else [Str ''Add '', Sym Rupee_sign, Num (THRESHOLD - st),
            Str '' more to unlock your free gift!''])"

text \<open>Lines 74--165: the whole page.\<close>

definition app_dom :: "app_state \<Rightarrow> node" where
  "app_dom s =
     (let st = subtotal (cart s) in
      Elem ''div'' [Class ''App'']
        ([Elem ''h1'' [Class ''shopping-heading''] [Text [Sym Shopping_cart, Str '' Shopping Cart'']],
          Elem ''div'' [Class ''products''] (map (product_node s) PRODUCTS),
          Elem ''hr'' [] [],
          Elem ''h2'' [] [Text [Str ''Progress to Free Gift'']],
          Elem ''div'' [Class ''progress-bar''] [Elem ''div'' [Class ''progress'', Width (progress st)] []],
          Elem ''p'' [] [Text (message_text st)]]
         @ (if giftAdded s then
              [Elem ''div'' [Class ''gift-msg''] [Text [Sym Party_popper, Str '' Free gift added to your cart!'']]]
            else [])
         @ [Elem ''h2'' [] [Text [Sym Shopping_bags, Str '' Cart'']],
            if cart s = [] then Elem ''p'' [] [Text [Str ''Your cart is empty.'']]
            else Elem ''div'' [Class ''carts'']
                   (map cart_node (cart s) @ [Elem ''h3'' [] [Text [Str ''Total: '', Sym Rupee_sign, Num st]]])]))"

subsection \<open>Reading the tree\<close>

fun attr_click :: "attr \<Rightarrow> event list" where
  "attr_click (OnClick e) = [e]"
| "attr_click _ = []"

text \<open>The handlers of the page's buttons, in document order.\<close>

fun clicks :: "node \<Rightarrow> event list" where
  "clicks (Elem t as cs) = concat (map attr_click as) @ concat (map clicks cs)"
| "clicks (Text ps) = []"

text \<open>The text nodes of the page in document order (what \<open>textContent\<close> concatenates).\<close>

fun texts :: "node \<Rightarrow> piece list list" where
  "texts (Elem t as cs) = concat (map texts cs)"
| "texts (Text ps) = [ps]"

text \<open>A text node that the page of a state shows.\<close>

abbreviation on_page :: "piece list \<Rightarrow> app_state \<Rightarrow> bool" where
  "on_page t s \<equiv> t \<in> set (texts (app_dom s))"

text \<open>What two states must share to look the same.\<close>

definition same_screen :: "app_state \<Rightarrow> app_state \<Rightarrow> bool" where
  "same_screen s1 s2 \<longleftrightarrow> cart s1 = cart s2 \<and> giftAdded s1 = giftAdded s2
     \<and> (\<forall>p\<in>set PRODUCTS. js_or_one (quantities s1 (pid p)) = js_or_one (quantities s2 (pid p)))"

declare progress_def [cart_defs] product_node_def [cart_defs] cart_node_def [cart_defs]
  message_text_def [cart_defs]
  app_dom_def [cart_defs]

subsection \<open>The nodes of a row\<close>

lemma clicks_product_node [simp]:
  "clicks (product_node s p) = [QuantityChange (pid p) (-1), QuantityChange (pid p) 1, AddToCart p]"
  by (simp add: product_node_def)

lemma clicks_cart_node [simp]:
  "clicks (cart_node x) =
     (if pid x \<noteq> GIFT_ID then
        [UpdateCartQuantity (pid x) (-1), UpdateCartQuantity (pid x) 1, RemoveFromCart (pid x)]
      else [])"
  by (simp add: cart_node_def)

lemma texts_product_node [simp]:
  "texts (product_node s p) =
     [[Str (name p), Str '' - '', Sym Rupee_sign, Num (price p)], [Str ''-''],
      [Num (js_or_one (quantities s (pid p)))], [Str ''+''], [Str ''Add to Cart'']]"
  by (simp add: product_node_def)

lemma texts_cart_node [simp]:
  "texts (cart_node x) =
     [Str (name x), Str '' - '', Sym Rupee_sign, Num (price x), Str '' x '', Num (quantity x)]
     # (if pid x \<noteq> GIFT_ID then [[Str ''-''], [Str ''+''], [Str ''Remove'']] else [])"
  by (simp add: cart_node_def)

subsection \<open>The page shows exactly the rendered values\<close>

lemma cart_node_eq_iff [simp]: "cart_node x = cart_node y \<longleftrightarrow> x = y"
  by (cases x; cases y) (auto simp: cart_node_def)

lemma map_cart_node_eq_iff [simp]: "map cart_node c1 = map cart_node c2 \<longleftrightarrow> c1 = c2"
  by (simp add: inj_def)

lemma app_dom_eq_iff: "app_dom s1 = app_dom s2 \<longleftrightarrow> same_screen s1 s2"
  unfolding app_dom_def Let_def same_screen_def
  by (cases "giftAdded s1"; cases "giftAdded s2"; cases "cart s1 = []"; cases "cart s2 = []")
     (auto simp: PRODUCTS_def product_node_def)

subsection \<open>What the page says\<close>

lemma texts_app_dom:
  "texts (app_dom s) =
     [Sym Shopping_cart, Str '' Shopping Cart''] # concat (map (texts \<circ> product_node s) PRODUCTS)
     @ [Str ''Progress to Free Gift''] # message_text (subtotal (cart s))
     # (if giftAdded s then [[Sym Party_popper, Str '' Free gift added to your cart!'']] else [])
     @ [Sym Shopping_bags, Str '' Cart'']
     # (if cart s = [] then [[Str ''Your cart is empty.'']]
        else concat (map (texts \<circ> cart_node) (cart s))
             @ [[Str ''Total: '', Sym Rupee_sign, Num (subtotal (cart s))]])"
  by (simp add: app_dom_def Let_def map_concat)

lemma on_page_empty: "on_page [Str ''Your cart is empty.''] s \<longleftrightarrow> cart s = []"
  by (auto simp: texts_app_dom message_text_def PRODUCTS_def split: if_splits)

lemma on_page_total:
  "on_page [Str ''Total: '', Sym Rupee_sign, Num n] s \<longleftrightarrow> cart s \<noteq> [] \<and> n = subtotal (cart s)"
  by (auto simp: texts_app_dom message_text_def PRODUCTS_def split: if_splits)

lemma on_page_earned:
  "on_page [Sym Wrapped_gift, Str '' You've earned the free gift!''] s \<longleftrightarrow> THRESHOLD \<le> subtotal (cart s)"
  by (auto simp: texts_app_dom message_text_def PRODUCTS_def split: if_splits)

lemma on_page_banner:
  "on_page [Sym Party_popper, Str '' Free gift added to your cart!''] s \<longleftrightarrow> giftAdded s"
  by (auto simp: texts_app_dom message_text_def PRODUCTS_def split: if_splits)

text \<open>The text of the gift's cart line, \<open>Wireless Mouse - \<close>rupee\<open>0 x 1\<close>.\<close>

lemma texts_cart_node_gift:
  "texts (cart_node gift_item) =
     [[Str ''Wireless Mouse'', Str '' - '', Sym Rupee_sign, Num 0, Str '' x '', Num 1]]"
  by (simp add: gift_item_def mk_item_def FREE_GIFT_def)

subsection \<open>Properties of the page\<close>

text \<open>
  C22.  The empty cart: the page says "Your cart is empty." exactly when
  the cart is empty, and shows a total exactly when it is not, and then
  the total is the subtotal.
\<close>

theorem page_empty_cart:
  "(on_page [Str ''Your cart is empty.''] s \<longleftrightarrow> cart s = [])
   \<and> (on_page [Str ''Total: '', Sym Rupee_sign, Num n] s \<longleftrightarrow> cart s \<noteq> [] \<and> n = subtotal (cart s))"
  by (simp add: on_page_empty on_page_total)

theorem page_empty_cart_witness:
  "on_page [Str ''Your cart is empty.''] init_state \<and> \<not> on_page [Str ''Total: '', Sym Rupee_sign, Num 0] init_state"
  using page_empty_cart [of init_state 0] by (simp add: init_state_def)


end
