(* ===== verification/View.thy ===== *)
theory View
  imports Dom
begin

text \<open>
  What the page of \<open>src/src/App.js\<close> (lines 74--165, the tree of
  \<open>Dom\<close>) displays, as a record of values computed from the state
  (\<open>render\<close>): each catalog row with its pending quantity, the
  progress width, the message, the banner, the cart lines with or
  without buttons, and the total.  The clicks a user can make,
  \<open>ui_events\<close>, are the \<open>onClick\<close> handlers of the page's buttons; the
  states reachable by such clicks are \<open>ui_reachable\<close>, a subset of the
  states reachable by arbitrary events.  In them every cart line is a
  catalog product or the gift line exactly as the effect adds it.  The
  theory proves that \<open>render\<close> determines the page and conversely, that
  the progress width stays within bounds, and that message, banner and
  gift line agree on every page a user can reach.
\<close>

datatype gift_message = Earned | AddMore int

text \<open>Lines 118--120: the message under the bar.\<close>

definition gift_message :: "int \<Rightarrow> gift_message" where
  "gift_message st = (if THRESHOLD \<le> st then Earned else AddMore (THRESHOLD - st))"

record product_row =
  row_product :: product
  row_pending :: int

record cart_row =
  row_item :: item
  row_controls :: bool

record view =
  product_rows :: "product_row list"
  progress_width :: rat
  message :: gift_message
  gift_banner :: bool
  cart_rows :: "cart_row list"
  total :: "int option"

text \<open>Lines 74--165.\<close>

definition render :: "app_state \<Rightarrow> view" where
  "render s =
     (let st = subtotal (cart s) in
      \<lparr>product_rows =
         map (\<lambda>p. \<lparr>row_product = p, row_pending = js_or_one (quantities s (pid p))\<rparr>) PRODUCTS,
       progress_width = progress st,
       message = gift_message st,
       gift_banner = giftAdded s,
       cart_rows = map (\<lambda>x. \<lparr>row_item = x, row_controls = (pid x \<noteq> GIFT_ID)\<rparr>) (cart s),
       total = (if cart s = [] then None else Some st)\<rparr>)"

text \<open>The clicks the page offers: the \<open>onClick\<close> handlers of its buttons.\<close>

definition ui_events :: "app_state \<Rightarrow> event list" where
  "ui_events s = clicks (app_dom s)"

inductive ui_reachable :: "app_state \<Rightarrow> bool" where
  mounted: "mount = Some s \<Longrightarrow> ui_reachable s"
| click: "ui_reachable s \<Longrightarrow> e \<in> set (ui_events s) \<Longrightarrow> dispatch e s = Some s' \<Longrightarrow> ui_reachable s'"

text \<open>The product part of a cart line, the object the line was spread from.\<close>

definition item_product :: "item \<Rightarrow> product" where
  "item_product x = \<lparr>pid = pid x, name = name x, price = price x\<rparr>"

definition catalog_line :: "item \<Rightarrow> bool" where
  "catalog_line x \<longleftrightarrow> x = gift_item \<or> item_product x \<in> set PRODUCTS"

text \<open>The invariant of the states reachable by clicks.\<close>

definition ui_inv :: "app_state \<Rightarrow> bool" where
  "ui_inv s \<longleftrightarrow> app_inv s \<and> list_all catalog_line (cart s)"

declare gift_message_def [cart_defs] render_def [cart_defs] ui_events_def [cart_defs]
  item_product_def [cart_defs] catalog_line_def [cart_defs]

subsection \<open>The clicks the view offers\<close>

lemma set_ui_events:
  "e \<in> set (ui_events s) \<longleftrightarrow>
     (\<exists>p\<in>set PRODUCTS. e = QuantityChange (pid p) (-1) \<or> e = QuantityChange (pid p) 1 \<or> e = AddToCart p)
   \<or> (\<exists>x\<in>set (cart s). pid x \<noteq> GIFT_ID \<and>
        (e = UpdateCartQuantity (pid x) (-1) \<or> e = UpdateCartQuantity (pid x) 1 \<or> e = RemoveFromCart (pid x)))"
  by (auto simp: ui_events_def app_dom_def Let_def split: if_splits)

lemma ui_reachable_init: "ui_reachable init_state"
  by (rule ui_reachable.mounted) (rule mount_eq)

lemma ui_reachable_click:
  "ui_reachable s \<Longrightarrow> e \<in> set (ui_events s) \<Longrightarrow> ui_reachable (the (dispatch e s))"
  by (rule ui_reachable.click) (simp_all add: dispatch_eq)

lemma ui_reachable_reachable: "ui_reachable s \<Longrightarrow> reachable s"
  by (induction rule: ui_reachable.induct) (auto intro: reachable.intros)

subsection \<open>Every line comes from the catalog or is the gift line\<close>

lemma item_product_quantity_upd [simp]: "item_product (x\<lparr>quantity := v\<rparr>) = item_product x"
  by (simp add: item_product_def)

lemma item_product_mk_item [simp]: "item_product (mk_item p q) = p"
  by (simp add: item_product_def mk_item_def)

lemma catalog_line_quantity_upd:
  "catalog_line x \<Longrightarrow> pid x \<noteq> GIFT_ID \<Longrightarrow> catalog_line (x\<lparr>quantity := v\<rparr>)"
  by (auto simp: catalog_line_def)

lemma catalog_addToCart_upd [keeps_wf]:
  assumes c: "list_all catalog_line c" and p: "p \<in> set PRODUCTS"
  shows "list_all catalog_line (addToCart_upd p q c)"
proof (cases "pid p \<in> pid ` set c")
  case True
  have "pid p \<noteq> GIFT_ID" using p by (rule PRODUCTS_not_gift)
  with c True show ?thesis
    by (auto simp: addToCart_upd_present intro!: list_all_cond_update catalog_line_quantity_upd)
next
  case False
  with c p show ?thesis by (simp add: addToCart_upd_absent catalog_line_def)
qed

lemma catalog_updateCartQuantity_upd [keeps_wf]:
  "cart_wf c \<Longrightarrow> list_all catalog_line c \<Longrightarrow> k \<noteq> GIFT_ID \<Longrightarrow>
   list_all catalog_line (updateCartQuantity_upd k d c)"
  by (auto simp: updateCartQuantity_upd_map intro!: list_all_cond_update catalog_line_quantity_upd)

lemma catalog_removeFromCart_upd [keeps_wf]:
  "list_all catalog_line c \<Longrightarrow> list_all catalog_line (removeFromCart_upd k c)"
  by (auto simp: removeFromCart_upd_def list_all_iff)

lemma catalog_promote [keeps_wf]:
  "list_all catalog_line (cart s) \<Longrightarrow> list_all catalog_line (cart (promote s))"
  using promotion_effect_cases [of s]
  by (auto simp: add_gift_def drop_gift_def catalog_line_def list_all_iff)

lemma catalog_line_gift: "catalog_line x \<Longrightarrow> pid x = GIFT_ID \<Longrightarrow> x = gift_item"
  using PRODUCTS_not_gift [of "item_product x"]
  by (auto simp: catalog_line_def item_product_def)

lemma ui_step_catalog:
  assumes inv: "app_inv s" and cat: "list_all catalog_line (cart s)"
    and e: "e \<in> set (ui_events s)"
  shows "list_all catalog_line (cart (the (dispatch e s)))"
proof -
  have wf: "cart_wf (cart s)" using inv by (simp add: app_inv_def)
  from e consider
      (qty) p d where "p \<in> set PRODUCTS" "e = QuantityChange (pid p) d"
    | (add) p where "p \<in> set PRODUCTS" "e = AddToCart p"
    | (upd) x d where "x \<in> set (cart s)" "pid x \<noteq> GIFT_ID" "e = UpdateCartQuantity (pid x) d"
    | (rem) x where "x \<in> set (cart s)" "pid x \<noteq> GIFT_ID" "e = RemoveFromCart (pid x)"
    unfolding set_ui_events by blast
  then show ?thesis
  proof cases
    case qty
    with cat show ?thesis
      by (simp add: dispatch_eq handleQuantityChange_def touches_cart_def)
  next
    case add
    with cat show ?thesis
      by (simp add: dispatch_eq addToCart_def touches_cart_def Let_def catalog_promote
          catalog_addToCart_upd)
  next
    case upd
    with cat wf show ?thesis
      by (simp add: dispatch_eq updateCartQuantity_def touches_cart_def catalog_promote
          catalog_updateCartQuantity_upd)
  next
    case rem
    with cat show ?thesis
      by (simp add: dispatch_eq removeFromCart_def touches_cart_def catalog_promote
          catalog_removeFromCart_upd)
  qed
qed

lemma ui_reachable_ui_inv: "ui_reachable s \<Longrightarrow> ui_inv s"
proof (induction rule: ui_reachable.induct)
  case (mounted s)
  then have "s = init_state" by (simp add: mount_eq)
  then show ?case
    using reachable_app_inv [OF reachable_init] by (simp add: ui_inv_def init_state_def)
next
  case (click s e s')
  then have "app_inv s'" by (auto simp: ui_inv_def intro: dispatch_app_inv)
  moreover have "list_all catalog_line (cart s')"
    using click ui_step_catalog [of s e] by (simp add: ui_inv_def)
  ultimately show ?case by (simp add: ui_inv_def)
qed

subsection \<open>The subtotal of a catalog cart\<close>

lemma subtotal_nonneg:
  "list_all catalog_line c \<Longrightarrow> list_all (\<lambda>x. 1 \<le> quantity x) c \<Longrightarrow> 0 \<le> subtotal c"
proof (induction c)
  case Nil
  then show ?case by simp
next
  case (Cons x c)
  have "pid x \<noteq> GIFT_ID \<Longrightarrow> 0 \<le> price x"
    using Cons.prems(1) PRODUCTS_price_nonneg [of "item_product x"]
    by (auto simp: catalog_line_def item_product_def)
  moreover have "0 \<le> quantity x" using Cons.prems(2) by simp
  ultimately have "0 \<le> subtotal [x]" by simp
  moreover have "0 \<le> subtotal c" using Cons by simp
  ultimately show ?case using subtotal_append [of "[x]" c] by simp
qed

subsection \<open>The page and the rendered values\<close>

lemma render_eq_iff: "render s1 = render s2 \<longleftrightarrow> same_screen s1 s2"
proof
  assume r: "render s1 = render s2"
  have "map (\<lambda>x. \<lparr>row_item = x, row_controls = (pid x \<noteq> GIFT_ID)\<rparr>) (cart s1) =
        map (\<lambda>x. \<lparr>row_item = x, row_controls = (pid x \<noteq> GIFT_ID)\<rparr>) (cart s2)"
    using arg_cong [OF r, of cart_rows] by (simp add: render_def Let_def)
  then have "cart s1 = cart s2" by (simp add: inj_def)
  with r show "same_screen s1 s2"
    by (simp add: render_def Let_def same_screen_def PRODUCTS_def)
next
  assume "same_screen s1 s2"
  then show "render s1 = render s2"
    by (simp add: render_def Let_def same_screen_def PRODUCTS_def)
qed

lemma on_page_gift_line:
  assumes c: "list_all catalog_line (cart s)"
  shows "on_page [Str ''Wireless Mouse'', Str '' - '', Sym Rupee_sign, Num 0, Str '' x '', Num 1] s
           \<longleftrightarrow> hasGift (cart s)"
proof
  assume "on_page [Str ''Wireless Mouse'', Str '' - '', Sym Rupee_sign, Num 0, Str '' x '', Num 1] s"
  then obtain x where x: "x \<in> set (cart s)" "name x = ''Wireless Mouse''"
    by (auto simp: texts_app_dom message_text_def PRODUCTS_def split: if_splits)
  with c have "x = gift_item"
    by (auto simp: list_all_iff catalog_line_def item_product_def PRODUCTS_def)
  with x show "hasGift (cart s)"
    by (auto simp: hasGift_iff intro!: image_eqI [where x = gift_item])
next
  assume "hasGift (cart s)"
  then obtain x where x: "x \<in> set (cart s)" "pid x = GIFT_ID" by (auto simp: hasGift_iff)
  with c have "x = gift_item" by (auto simp: list_all_iff intro: catalog_line_gift)
  with x have "\<exists>y\<in>set (cart s).
      [Str ''Wireless Mouse'', Str '' - '', Sym Rupee_sign, Num 0, Str '' x '', Num 1] \<in> set (texts (cart_node y))"
    by (intro bexI [where x = gift_item]) (simp_all add: texts_cart_node_gift del: texts_cart_node)
  with x show "on_page [Str ''Wireless Mouse'', Str '' - '', Sym Rupee_sign, Num 0, Str '' x '', Num 1] s"
    by (auto simp: texts_app_dom simp del: texts_cart_node)
qed

subsection \<open>Properties of the rendered view\<close>

lemma progress_bounds:
  "0 \<le> st \<Longrightarrow> 0 \<le> progress st \<and> progress st \<le> 100 \<and> (progress st = 100 \<longleftrightarrow> THRESHOLD \<le> st)"
  by (simp add: progress_def THRESHOLD_def min_def field_simps)

text \<open>
  C12.  The progress bar stays within bounds: in a state reachable by
  clicks its width is between 0 and 100 per cent, and it is full exactly
  when the subtotal reaches the threshold.  The lower bound needs the
  catalog prices: a cart line spread from a product with a negative price
  would make the bar's width negative.
\<close>

theorem ui_progress_bounds:
  "ui_reachable s \<Longrightarrow>
     0 \<le> progress_width (render s) \<and> progress_width (render s) \<le> 100
     \<and> (progress_width (render s) = 100 \<longleftrightarrow> THRESHOLD \<le> subtotal (cart s))"
proof -
  assume "ui_reachable s"
  then have "ui_inv s" by (rule ui_reachable_ui_inv)
  then have "0 \<le> subtotal (cart s)"
    by (auto simp: ui_inv_def app_inv_def cart_wf_def intro: subtotal_nonneg)
  then show ?thesis by (simp add: render_def Let_def progress_bounds)
qed

subsection \<open>Witnesses\<close>

text \<open>Scenario 1 by clicks: "+" on the laptop row, then "Add to Cart".\<close>

lemma ui_scenario1_reachable:
  "ui_reachable (the (dispatch (AddToCart (hd PRODUCTS))
     (the (dispatch (QuantityChange 1 1) init_state))))"
proof -
  have r1: "ui_reachable (the (dispatch (QuantityChange 1 1) init_state))"
    by (rule ui_reachable_click [OF ui_reachable_init]) (simp add: cart_defs)
  show ?thesis
    by (rule ui_reachable_click [OF r1]) (simp add: cart_defs)
qed

theorem ui_progress_bounds_witness:
  "ui_reachable (the (dispatch (AddToCart (hd PRODUCTS)) (the (dispatch (QuantityChange 1 1) init_state))))
   \<and> progress_width (render (the (dispatch (AddToCart (hd PRODUCTS))
                                (the (dispatch (QuantityChange 1 1) init_state))))) = 100"
proof -
  let ?s = "the (dispatch (AddToCart (hd PRODUCTS)) (the (dispatch (QuantityChange 1 1) init_state)))"
  have "THRESHOLD \<le> subtotal (cart ?s)" by (simp add: cart_defs)
  with ui_progress_bounds [OF ui_scenario1_reachable] ui_scenario1_reachable show ?thesis by simp
qed

text \<open>
  C21.  The page and the record \<open>render\<close> carry the same information:
  two states render the same values exactly when React writes the same
  element tree for them.
\<close>

theorem page_iff_render: "app_dom s1 = app_dom s2 \<longleftrightarrow> render s1 = render s2"
  by (simp add: app_dom_eq_iff render_eq_iff)

theorem page_iff_render_witness:
  "app_dom init_state = app_dom (init_state\<lparr>quantities := Map.empty(1 \<mapsto> 1)\<rparr>)
   \<and> init_state \<noteq> init_state\<lparr>quantities := Map.empty(1 \<mapsto> 1)\<rparr>"
proof -
  have "render init_state = render (init_state\<lparr>quantities := Map.empty(1 \<mapsto> 1)\<rparr>)"
    by (simp add: render_def init_state_def js_or_one_def PRODUCTS_def)
  then have "app_dom init_state = app_dom (init_state\<lparr>quantities := Map.empty(1 \<mapsto> 1)\<rparr>)"
    using page_iff_render by blast
  moreover have "init_state \<noteq> init_state\<lparr>quantities := Map.empty(1 \<mapsto> 1)\<rparr>"
    by (auto simp: init_state_def fun_eq_iff)
  ultimately show ?thesis by blast
qed

text \<open>
  C23.  On every page of a click-reachable state the message, the banner
  and the cart agree: "You've earned the free gift!" is shown exactly
  when the gift's cart line (Wireless Mouse, price 0, quantity 1) is,
  and so is the banner "Free gift added to your cart!".
\<close>

theorem ui_page_consistent:
  assumes "ui_reachable s"
  shows "(on_page [Sym Wrapped_gift, Str '' You've earned the free gift!''] s
            \<longleftrightarrow> on_page [Str ''Wireless Mouse'', Str '' - '', Sym Rupee_sign, Num 0, Str '' x '', Num 1] s)
       \<and> (on_page [Sym Party_popper, Str '' Free gift added to your cart!''] s
            \<longleftrightarrow> on_page [Str ''Wireless Mouse'', Str '' - '', Sym Rupee_sign, Num 0, Str '' x '', Num 1] s)"
proof -
  have inv: "ui_inv s" using assms by (rule ui_reachable_ui_inv)
  then have "promo_consistent s \<and> giftAdded s = hasGift (cart s)"
    by (simp add: ui_inv_def app_inv_promo)
  with inv show ?thesis
    by (simp add: on_page_earned on_page_banner on_page_gift_line ui_inv_def promo_consistent_def)
qed

theorem ui_page_consistent_witness:
  "ui_reachable (the (dispatch (AddToCart (hd PRODUCTS)) (the (dispatch (QuantityChange 1 1) init_state))))
   \<and> on_page [Str ''Wireless Mouse'', Str '' - '', Sym Rupee_sign, Num 0, Str '' x '', Num 1]
       (the (dispatch (AddToCart (hd PRODUCTS)) (the (dispatch (QuantityChange 1 1) init_state))))"
proof -
  let ?s = "the (dispatch (AddToCart (hd PRODUCTS)) (the (dispatch (QuantityChange 1 1) init_state)))"
  have "on_page [Sym Wrapped_gift, Str '' You've earned the free gift!''] ?s"
    by (simp add: on_page_earned cart_defs)
  with ui_page_consistent [OF ui_scenario1_reachable] ui_scenario1_reachable show ?thesis by simp
qed

end
