(* ===== verification/Refinement.thy ===== *)
theory Refinement
  imports View
begin

text \<open>
  An abstract cart: a finite map from product id to quantity, the
  pending quantities, and the four operations on them as the code
  performs them, with the promotional item left out since it is derived
  from the subtotal.  It is the data model of section 4.1 of the
  specification, but its update clamps at 1 as the code does: with the
  specification's removal at 0 the refinement fails (one laptop, then
  "-"), which is the divergence \<open>updateCartQuantity_never_removes\<close>
  states.  \<open>abs_of\<close> reads a state of the model this
  way, and every click of \<open>src/src/App.js\<close>, followed by its effect,
  moves the abstraction by one step of the abstract machine
  (\<open>dispatch_simulates\<close>).  In click-reachable states the subtotal is
  the catalog price of each product times its abstract quantity, so the
  gift rule is a rule about the abstract cart alone.
\<close>

type_synonym abs_cart = "(int \<rightharpoonup> int) \<times> quantities"

text \<open>The pending quantity the specification describes: 1 when unset.\<close>

definition pending_of :: "quantities \<Rightarrow> int \<Rightarrow> int" where
  "pending_of qs k = (case qs k of None \<Rightarrow> 1 | Some v \<Rightarrow> v)"

fun abs_step :: "event \<Rightarrow> abs_cart \<Rightarrow> abs_cart" where
  "abs_step (QuantityChange k d) (m, qs) = (m, qs(k \<mapsto> max (pending_of qs k + d) 1))"
| "abs_step (AddToCart p) (m, qs) =
     ((if pid p = GIFT_ID then m else add_abs m (pid p) (pending_of qs (pid p))), qs)"
| "abs_step (UpdateCartQuantity k d) (m, qs) = (update_abs m k d, qs)"
| "abs_step (RemoveFromCart k) (m, qs) = (remove_abs m k, qs)"

definition abs_of :: "app_state \<Rightarrow> abs_cart" where
  "abs_of s = ((cart_qty (cart s))(GIFT_ID := None), quantities s)"

text \<open>The subtotal of an abstract cart: catalog price times quantity.\<close>

definition abs_subtotal :: "(int \<rightharpoonup> int) \<Rightarrow> int" where
  "abs_subtotal m = (\<Sum>p\<leftarrow>PRODUCTS. price p * (case m (pid p) of None \<Rightarrow> 0 | Some q \<Rightarrow> q))"

declare pending_of_def [cart_defs] abs_of_def [cart_defs] abs_subtotal_def [cart_defs]

subsection \<open>The gift line is invisible to the abstraction\<close>

lemma cart_qty_add_gift_restrict:
  "(cart_qty (add_gift c))(GIFT_ID := None) = (cart_qty c)(GIFT_ID := None)"
  by (auto simp: add_gift_def cart_qty_def map_add_def fun_eq_iff split: option.split)

lemma cart_qty_drop_gift_restrict:
  "(cart_qty (drop_gift c))(GIFT_ID := None) = (cart_qty c)(GIFT_ID := None)"
  by (simp add: drop_gift_def cart_qty_def map_of_filter_key)

lemma abs_of_promote [simp]: "abs_of (promote s) = abs_of s"
  using promotion_effect_cases [of s] cart_qty_add_gift_restrict [of "cart s"]
    cart_qty_drop_gift_restrict [of "cart s"]
  by (auto simp: abs_of_def)

subsection \<open>The abstract operations commute with forgetting the gift\<close>

lemma add_abs_restrict:
  "k \<noteq> j \<Longrightarrow> (add_abs m k q)(j := None) = add_abs (m(j := None)) k q"
  by (simp add: add_abs_def fun_upd_twist)

lemma add_abs_restrict_same: "(add_abs m k q)(k := None) = m(k := None)"
  by (simp add: add_abs_def)

lemma update_abs_restrict: "(update_abs m k d)(j := None) = update_abs (m(j := None)) k d"
  by (auto simp: update_abs_def fun_upd_twist split: option.split)

lemma remove_abs_restrict: "(remove_abs m k)(j := None) = remove_abs (m(j := None)) k"
  by (cases "k = j") (simp_all add: remove_abs_def fun_upd_twist)

lemma abs_of_cart_step:
  "abs_of (promote (s\<lparr>cart := c'\<rparr>)) = ((cart_qty c')(GIFT_ID := None), quantities s)"
proof -
  have "abs_of (promote (s\<lparr>cart := c'\<rparr>)) = abs_of (s\<lparr>cart := c'\<rparr>)"
    by (rule abs_of_promote)
  then show ?thesis by (simp add: abs_of_def)
qed

lemma abs_of_eq: "abs_of s = ((cart_qty (cart s))(GIFT_ID := None), quantities s)"
  by (simp add: abs_of_def)

lemma pending_of_js_or_one:
  "quantities_wf qs \<Longrightarrow> js_or_one (qs k) = pending_of qs k"
  by (simp add: js_or_one_wf pending_of_def)

lemma abs_of_dispatch_SetCart:
  "handler e s = [SetCart f] \<Longrightarrow> dispatch e s = Some s' \<Longrightarrow>
   abs_of s' = ((cart_qty (f (cart s)))(GIFT_ID := None), quantities s)"
  using dispatch_SetCart [of e s f] abs_of_cart_step [where s = s and c' = "f (cart s)"] by simp

lemma dispatch_abs_step:
  assumes inv: "app_inv s" and d: "dispatch e s = Some s'"
  shows "abs_of s' = abs_step e (abs_of s)"
proof -
  have wf: "cart_wf (cart s)" and qwf: "quantities_wf (quantities s)"
    using inv by (simp_all add: app_inv_def)
  let ?m = "cart_qty (cart s)" and ?qs = "quantities s"
  have abs_s: "abs_of s = (?m(GIFT_ID := None), ?qs)" by (rule abs_of_eq)
  show ?thesis
  proof (cases e)
    case (QuantityChange k d)
    with d qwf show ?thesis
      by (auto simp: dispatch_eq handleQuantityChange_def touches_cart_def abs_of_def
          handleQuantityChange_upd_def pending_of_js_or_one)
  next
    case (AddToCart p)
    then have "handler e s = [SetCart (addToCart_upd p (pending_of ?qs (pid p)))]"
      by (simp add: addToCart_def pending_of_js_or_one [OF qwf])
    from abs_of_dispatch_SetCart [OF this d] AddToCart abs_s show ?thesis
      by (cases "pid p = GIFT_ID")
        (simp_all add: cart_qty_addToCart add_abs_restrict add_abs_restrict_same)
  next
    case (UpdateCartQuantity k d)
    then have "handler e s = [SetCart (updateCartQuantity_upd k d)]"
      by (simp add: updateCartQuantity_def)
    from abs_of_dispatch_SetCart [OF this \<open>dispatch e s = Some s'\<close>] UpdateCartQuantity abs_s wf
    show ?thesis by (simp add: cart_qty_updateCartQuantity update_abs_restrict)
  next
    case (RemoveFromCart k)
    show ?thesis
    proof (cases "k = GIFT_ID")
      case True
      with RemoveFromCart d abs_s show ?thesis
        by (simp add: dispatch_eq removeFromCart_def touches_cart_def remove_abs_def)
    next
      case False
      with RemoveFromCart have "handler e s = [SetCart (removeFromCart_upd k)]"
        by (simp add: removeFromCart_def)
      from abs_of_dispatch_SetCart [OF this d] RemoveFromCart abs_s show ?thesis
        by (simp add: cart_qty_removeFromCart remove_abs_restrict)
    qed
  qed
qed

text \<open>
  C8.  Refinement of the whole component: from a state satisfying the
  invariant, handling any event (the handler, its commit and the effect)
  moves the abstraction of the state by exactly one step of the abstract
  cart machine: adding merges into the map, an update clamps at 1,
  removal deletes the key, a pending change clamps at 1.  The
  refinement hides the array order, the merge of duplicate ids, the gift
  line and the effect.
\<close>

theorem dispatch_simulates:
  assumes "app_inv s" and "dispatch e s = Some s'"
  shows "abs_of s' = abs_step e (abs_of s)"
  using assms by (rule dispatch_abs_step)

subsection \<open>The subtotal of a click-reachable cart\<close>

lemma sum_price_upd_new:
  assumes "m k = None"
  shows "(\<Sum>p\<leftarrow>P. price p * (case (m(k \<mapsto> v)) (pid p) of None \<Rightarrow> 0 | Some q \<Rightarrow> q)) =
         (\<Sum>p\<leftarrow>P. price p * (case m (pid p) of None \<Rightarrow> 0 | Some q \<Rightarrow> q))
         + (\<Sum>p\<leftarrow>P. if pid p = k then price p * v else 0)"
  using assms by (induction P) auto

lemma abs_subtotal_upd_new:
  "m k = None \<Longrightarrow>
   abs_subtotal (m(k \<mapsto> v)) = abs_subtotal m + (\<Sum>p\<leftarrow>PRODUCTS. if pid p = k then price p * v else 0)"
  unfolding abs_subtotal_def by (rule sum_price_upd_new)

text \<open>No catalog product has the gift's id (99), so the abstract subtotal ignores that key.\<close>

lemma abs_subtotal_gift_key [simp]: "abs_subtotal (m(99 := v)) = abs_subtotal m"
  by (simp add: abs_subtotal_def PRODUCTS_def)

lemma subtotal_catalog:
  "distinct (map pid c) \<Longrightarrow> list_all catalog_line c \<Longrightarrow> subtotal c = abs_subtotal (cart_qty c)"
proof (induction c)
  case Nil
  then show ?case by (simp add: abs_subtotal_def cart_qty_def)
next
  case (Cons x c)
  then have IH: "subtotal c = abs_subtotal (cart_qty c)" by simp
  have fresh: "cart_qty c (pid x) = None"
    using Cons.prems(1) by (simp add: cart_qty_None_iff)
  have cons: "cart_qty (x # c) = (cart_qty c)(pid x \<mapsto> quantity x)"
    by (simp add: cart_qty_def)
  have sub: "subtotal (x # c) = subtotal [x] + subtotal c"
    using subtotal_append [of "[x]" c] by simp
  show ?case
  proof (cases "pid x = GIFT_ID")
    case True
    then have x99: "pid x = 99" by simp
    have "abs_subtotal (cart_qty (x # c)) = abs_subtotal ((cart_qty c)(99 := Some (quantity x)))"
      by (simp only: cons x99)
    also have "\<dots> = abs_subtotal (cart_qty c)"
      by (rule abs_subtotal_gift_key)
    finally show ?thesis using True by (simp add: sub IH)
  next
    case False
    then have p0: "item_product x \<in> set PRODUCTS"
      using Cons.prems(2) by (auto simp: catalog_line_def)
    have single: "(\<Sum>p\<leftarrow>PRODUCTS. if pid p = pid (item_product x) then price p * quantity x else 0)
          = price (item_product x) * quantity x"
      by (rule sum_list_single_key [OF PRODUCTS_distinct_ids p0])
    have "abs_subtotal (cart_qty (x # c)) = abs_subtotal ((cart_qty c)(pid x \<mapsto> quantity x))"
      by (simp only: cons)
    also have "\<dots> = abs_subtotal (cart_qty c)
        + (\<Sum>p\<leftarrow>PRODUCTS. if pid p = pid x then price p * quantity x else 0)"
      by (rule abs_subtotal_upd_new [where m = "cart_qty c" and k = "pid x", OF fresh])
    also have "\<dots> = abs_subtotal (cart_qty c) + price x * quantity x"
      using single by (simp add: item_product_def)
    finally show ?thesis using False by (simp add: sub IH)
  qed
qed

text \<open>
  C9.  In a state reachable by clicks, the subtotal derived from the cart
  array (filter, then reduce) equals the catalog price of each product
  times its quantity in the abstract cart, and the gift is in the cart
  exactly when that abstract subtotal reaches the threshold.
\<close>

theorem ui_subtotal_abstract:
  "ui_reachable s \<Longrightarrow>
     subtotal (cart s) = abs_subtotal (fst (abs_of s))
     \<and> (hasGift (cart s) \<longleftrightarrow> THRESHOLD \<le> abs_subtotal (fst (abs_of s)))"
proof -
  assume "ui_reachable s"
  then have inv: "ui_inv s" by (rule ui_reachable_ui_inv)
  then have eq: "subtotal (cart s) = abs_subtotal (cart_qty (cart s))"
    by (intro subtotal_catalog) (simp_all add: ui_inv_def app_inv_def cart_wf_def)
  moreover have "hasGift (cart s) \<longleftrightarrow> THRESHOLD \<le> subtotal (cart s)"
    using inv by (simp add: ui_inv_def app_inv_def promo_consistent_def)
  ultimately show ?thesis by (simp add: abs_of_def)
qed

subsection \<open>Witnesses\<close>

theorem dispatch_simulates_witness:
  "app_inv init_state
   \<and> dispatch (AddToCart (hd PRODUCTS)) init_state = Some (the (dispatch (AddToCart (hd PRODUCTS)) init_state))
   \<and> fst (abs_of (the (dispatch (AddToCart (hd PRODUCTS)) init_state))) 1 = Some 1"
proof -
  let ?s' = "the (dispatch (AddToCart (hd PRODUCTS)) init_state)"
  have i: "app_inv init_state" by (rule app_inv_init)
  have d: "dispatch (AddToCart (hd PRODUCTS)) init_state = Some ?s'" by (simp add: dispatch_eq)
  have "abs_of ?s' = abs_step (AddToCart (hd PRODUCTS)) (abs_of init_state)"
    by (rule dispatch_simulates [OF i d])
  then have "fst (abs_of ?s') 1 = Some 1"
    by (simp add: cart_defs add_abs_def cart_qty_def)
  with i d show ?thesis by simp
qed

theorem ui_subtotal_abstract_witness:
  "ui_reachable (the (dispatch (AddToCart (hd PRODUCTS)) (the (dispatch (QuantityChange 1 1) init_state))))
   \<and> abs_subtotal (fst (abs_of (the (dispatch (AddToCart (hd PRODUCTS))
                                    (the (dispatch (QuantityChange 1 1) init_state)))))) = 1000"
proof -
  let ?s = "the (dispatch (AddToCart (hd PRODUCTS)) (the (dispatch (QuantityChange 1 1) init_state)))"
  have "subtotal (cart ?s) = 1000" by (simp add: cart_defs)
  with ui_subtotal_abstract [OF ui_scenario1_reachable] ui_scenario1_reachable show ?thesis by simp
qed

end
