(* ===== verification/Laws.thy ===== *)
theory Laws
  imports Refinement
begin

text \<open>
  Laws of the click handlers of \<open>src/src/App.js\<close> that relate several
  events or several inputs: undoing a click ("+" then "-" on a cart line
  or on a product row gives back what was there), the graceful no-op on
  ids that are not in the cart (section 7 of the specification), the
  shape every line of a click-reachable cart has, and the independence of
  clicks about different products in the abstract cart, where the order
  of the array lines is forgotten.
\<close>

text \<open>The product a click is about.\<close>

fun event_key :: "event \<Rightarrow> int" where
  "event_key (QuantityChange k _) = k"
| "event_key (AddToCart p) = pid p"
| "event_key (UpdateCartQuantity k _) = k"
| "event_key (RemoveFromCart k) = k"

subsection \<open>Cart updaters: undo and absent ids\<close>

lemma updateCartQuantity_upd_undo:
  assumes wf: "cart_wf c"
  shows "updateCartQuantity_upd k (-1) (updateCartQuantity_upd k 1 c) = c"
proof -
  have wf1: "cart_wf (updateCartQuantity_upd k 1 c)"
    using wf by (rule updateCartQuantity_upd_wf)
  have pos: "\<forall>x\<in>set c. 1 \<le> quantity x"
    using wf by (simp add: cart_wf_def list_all_iff)
  then have "map (\<lambda>x. if pid x = k then x\<lparr>quantity := max (quantity x + - 1) 1\<rparr> else x)
      (map (\<lambda>x. if pid x = k then x\<lparr>quantity := max (quantity x + 1) 1\<rparr> else x) c) = c"
    by (induction c) auto
  then show ?thesis
    using wf wf1 by (simp add: updateCartQuantity_upd_map)
qed

lemma updateCartQuantity_upd_absent:
  "cart_wf c \<Longrightarrow> k \<notin> pid ` set c \<Longrightarrow> updateCartQuantity_upd k d c = c"
  by (simp add: updateCartQuantity_upd_map map_cond_update_absent)

lemma removeFromCart_upd_absent:
  "k \<notin> pid ` set c \<Longrightarrow> removeFromCart_upd k c = c"
  by (induction c) (auto simp: removeFromCart_upd_def)

lemma updateCartQuantity_upd_snoc_gift:
  "updateCartQuantity_upd k (-1) (c @ [gift_item]) = updateCartQuantity_upd k (-1) c @ [gift_item]"
  by (simp add: updateCartQuantity_upd_def gift_item_def mk_item_def)

lemma drop_gift_add_gift: "\<not> hasGift c \<Longrightarrow> drop_gift (add_gift c) = c"
  by (induction c) (auto simp: drop_gift_def add_gift_def hasGift_iff)

lemma subtotal_increment_mono:
  "list_all catalog_line c \<Longrightarrow> list_all (\<lambda>x. 1 \<le> quantity x) c \<Longrightarrow>
   subtotal c \<le> subtotal (map (\<lambda>x. if pid x = k then x\<lparr>quantity := max (quantity x + 1) 1\<rparr> else x) c)"
proof (induction c)
  case Nil
  then show ?case by simp
next
  case (Cons x c)
  let ?f = "\<lambda>x. if pid x = k then x\<lparr>quantity := max (quantity x + 1) 1\<rparr> else x"
  have "pid x \<noteq> GIFT_ID \<Longrightarrow> 0 \<le> price x"
    using Cons.prems(1) PRODUCTS_price_nonneg [of "item_product x"]
    by (auto simp: catalog_line_def item_product_def)
  then have "subtotal [x] \<le> subtotal [?f x]"
    using Cons.prems(2) by (auto intro: mult_left_mono)
  moreover have "subtotal c \<le> subtotal (map ?f c)" using Cons by simp
  ultimately show ?case
    using subtotal_append [of "[x]" c] subtotal_append [of "[?f x]" "map ?f c"] by simp
qed

subsection \<open>Undoing a click\<close>

text \<open>
  C16.  Undo on a cart line: in a click-reachable state, "+" followed by
  "-" on the same line gives back exactly the state before, also when
  the "+" crossed the threshold and the effect added the gift, which the
  "-" then removes again.  The law needs the catalog's non-negative
  prices: with a negative price "+" could lower the subtotal, drop the
  gift, and "-" would append it again at the end of the array.
\<close>

theorem line_plus_minus_undo:
  assumes r: "ui_reachable s"
  shows "the (dispatch (UpdateCartQuantity k (-1)) (the (dispatch (UpdateCartQuantity k 1) s))) = s"
proof -
  have inv: "app_inv s" and cat: "list_all catalog_line (cart s)"
    using ui_reachable_ui_inv [OF r] by (simp_all add: ui_inv_def)
  let ?cur = "cart s"
  let ?up = "updateCartQuantity_upd k 1 ?cur"
  have wf: "cart_wf ?cur" and cons: "promo_consistent s" and flag: "giftAdded s = hasGift ?cur"
    using inv by (simp_all add: app_inv_def)
  have wf1: "cart_wf ?up" using wf by (rule updateCartQuantity_upd_wf)
  have undo: "updateCartQuantity_upd k (-1) ?up = ?cur"
    using wf by (rule updateCartQuantity_upd_undo)
  have g1: "hasGift ?up = hasGift ?cur"
    using wf by (rule hasGift_updateCartQuantity_upd)
  have mono: "subtotal ?cur \<le> subtotal ?up"
    using wf cat subtotal_increment_mono [of ?cur k]
    by (simp add: updateCartQuantity_upd_map cart_wf_def)
  have d1: "dispatch (UpdateCartQuantity k 1) s = Some (promote (s\<lparr>cart := ?up\<rparr>))"
    by (rule dispatch_SetCart) (simp add: updateCartQuantity_def)
  have restore: "promote (s\<lparr>cart := ?cur\<rparr>) = s"
    using cons by (simp add: promote_id)
  show ?thesis
  proof (cases "promo_consistent (s\<lparr>cart := ?up\<rparr>)")
    case True
    then have "promote (s\<lparr>cart := ?up\<rparr>) = s\<lparr>cart := ?up\<rparr>" by (rule promote_id)
    with d1 undo restore show ?thesis
      by (simp add: dispatch_eq updateCartQuantity_def touches_cart_def)
  next
    case False
    with cons g1 mono have crossed: "\<not> hasGift ?cur" "subtotal ?cur < THRESHOLD" "THRESHOLD \<le> subtotal ?up"
      by (auto simp: promo_consistent_def)
    with g1 have "promote (s\<lparr>cart := ?up\<rparr>) = s\<lparr>cart := add_gift ?up, giftAdded := True\<rparr>"
      using promotion_effect_cases [of "s\<lparr>cart := ?up\<rparr>"] by (auto simp: promo_consistent_def)
    moreover have "updateCartQuantity_upd k (-1) (add_gift ?up) = add_gift ?cur"
      by (simp add: add_gift_def updateCartQuantity_upd_snoc_gift undo)
    moreover have "promote (s\<lparr>giftAdded := True, cart := add_gift ?cur\<rparr>) = s"
      using promotion_effect_cases [of "s\<lparr>giftAdded := True, cart := add_gift ?cur\<rparr>"] crossed flag
      by (auto simp: drop_gift_add_gift promo_consistent_def)
    ultimately show ?thesis
      using d1 by (simp add: dispatch_eq updateCartQuantity_def touches_cart_def)
  qed
qed

theorem line_plus_minus_undo_witness:
  "ui_reachable (the (dispatch (AddToCart (hd PRODUCTS)) (the (dispatch (QuantityChange 1 1) init_state))))
   \<and> the (dispatch (UpdateCartQuantity 1 (-1)) (the (dispatch (UpdateCartQuantity 1 1)
       (the (dispatch (AddToCart (hd PRODUCTS)) (the (dispatch (QuantityChange 1 1) init_state)))))))
     = the (dispatch (AddToCart (hd PRODUCTS)) (the (dispatch (QuantityChange 1 1) init_state)))"
  using line_plus_minus_undo [OF ui_scenario1_reachable, of 1] ui_scenario1_reachable by simp

lemma handleQuantityChange_upd_undo:
  assumes "quantities_wf m"
  shows "js_or_one (handleQuantityChange_upd k (-1) (handleQuantityChange_upd k 1 m) j) = js_or_one (m j)"
  using assms js_or_one_pos [OF assms, of k]
  by (simp add: handleQuantityChange_upd_def js_or_one_def split: option.split)

text \<open>
  C17.  Undo on a product row: "+" then "-" on the pending quantity of a
  product renders exactly the page that was there before.  The
  \<open>quantities\<close> object itself may differ, since a product never touched
  now has an explicit entry 1 where it had none, but \<open>|| 1\<close> reads both
  alike.
\<close>

theorem pending_plus_minus_undo:
  assumes "quantities_wf (quantities s)"
  shows "render (the (dispatch (QuantityChange k (-1)) (the (dispatch (QuantityChange k 1) s)))) = render s"
proof -
  let ?m = "quantities s"
  have "the (dispatch (QuantityChange k (-1)) (the (dispatch (QuantityChange k 1) s))) =
        s\<lparr>quantities := handleQuantityChange_upd k (-1) (handleQuantityChange_upd k 1 ?m)\<rparr>"
    by (simp add: dispatch_eq handleQuantityChange_def touches_cart_def)
  moreover have "\<And>j. js_or_one (handleQuantityChange_upd k (-1) (handleQuantityChange_upd k 1 ?m) j)
                   = js_or_one (?m j)"
    using assms by (rule handleQuantityChange_upd_undo)
  ultimately show ?thesis by (simp add: render_def Let_def)
qed

theorem pending_plus_minus_undo_witness:
  "quantities_wf (quantities init_state)
   \<and> render (the (dispatch (QuantityChange 3 (-1)) (the (dispatch (QuantityChange 3 1) init_state))))
     = render init_state
   \<and> quantities (the (dispatch (QuantityChange 3 (-1)) (the (dispatch (QuantityChange 3 1) init_state))))
     \<noteq> quantities init_state"
proof -
  have q: "quantities_wf (quantities init_state)" by (simp add: init_state_def)
  have "quantities (the (dispatch (QuantityChange 3 (-1)) (the (dispatch (QuantityChange 3 1) init_state)))) 3
        = Some 1"
    by (simp add: cart_defs)
  then have "quantities (the (dispatch (QuantityChange 3 (-1)) (the (dispatch (QuantityChange 3 1) init_state))))
     \<noteq> quantities init_state"
    by (auto simp: init_state_def)
  with q pending_plus_minus_undo [OF q, of 3] show ?thesis by simp
qed

subsection \<open>Ids that are not in the cart\<close>

text \<open>
  C18.  Graceful degradation (section 7 of the specification): in a
  reachable state, \<open>updateCartQuantity\<close> and \<open>removeFromCart\<close> with an id
  that has no cart line leave the whole state as it was; neither raises,
  neither adds a line.
\<close>

theorem absent_id_noop:
  assumes r: "reachable s" and k: "k \<notin> pid ` set (cart s)"
  shows "dispatch (UpdateCartQuantity k d) s = Some s \<and> dispatch (RemoveFromCart k) s = Some s"
proof -
  have inv: "app_inv s" using r by (rule reachable_app_inv)
  then have wf: "cart_wf (cart s)" and cons: "promo_consistent s"
    by (simp_all add: app_inv_def)
  have same: "promote (s\<lparr>cart := cart s\<rparr>) = s" using cons by (simp add: promote_id)
  have "dispatch (UpdateCartQuantity k d) s = Some s"
    using same wf k
    by (simp add: dispatch_SetCart updateCartQuantity_def updateCartQuantity_upd_absent)
  moreover have "dispatch (RemoveFromCart k) s = Some s"
  proof (cases "k = GIFT_ID")
    case True
    then show ?thesis by (simp add: dispatch_eq removeFromCart_def touches_cart_def)
  next
    case False
    then show ?thesis
      using same k by (simp add: dispatch_SetCart removeFromCart_def removeFromCart_upd_absent)
  qed
  ultimately show ?thesis ..
qed

theorem absent_id_noop_witness:
  "reachable init_state \<and> 7 \<notin> pid ` set (cart init_state)
   \<and> dispatch (UpdateCartQuantity 7 1) init_state = Some init_state"
  using absent_id_noop [OF reachable_init, of 7 1] reachable_init by (simp add: init_state_def)

subsection \<open>The shape of a cart line\<close>

lemma mk_item_item_product: "mk_item (item_product x) (quantity x) = x"
  by (cases x) (simp add: item_product_def mk_item_def)

lemma catalog_line_shape:
  "catalog_line x \<Longrightarrow> x = gift_item \<or> (\<exists>p\<in>set PRODUCTS. x = mk_item p (quantity x))"
  unfolding catalog_line_def by (metis mk_item_item_product)

text \<open>
  C19.  The type of a cart line in a click-reachable state: it is either
  the gift line \<open>{ ...FREE_GIFT, quantity: 1 }\<close> or a catalog product
  spread into \<open>{ ...product, quantity }\<close> with a quantity of at least 1;
  no line carries a name or price of its own.
\<close>

theorem ui_cart_line_type:
  "ui_reachable s \<Longrightarrow> x \<in> set (cart s) \<Longrightarrow>
     x = gift_item \<or> (\<exists>p\<in>set PRODUCTS. x = mk_item p (quantity x) \<and> 1 \<le> quantity x)"
proof -
  assume r: "ui_reachable s" and x: "x \<in> set (cart s)"
  from ui_reachable_ui_inv [OF r] have "catalog_line x" and "1 \<le> quantity x"
    using x by (auto simp: ui_inv_def app_inv_def cart_wf_def list_all_iff)
  then show ?thesis using catalog_line_shape [of x] by blast
qed

theorem ui_cart_line_type_witness:
  "ui_reachable (the (dispatch (AddToCart (hd PRODUCTS)) (the (dispatch (QuantityChange 1 1) init_state))))
   \<and> mk_item (hd PRODUCTS) 2 \<in> set (cart (the (dispatch (AddToCart (hd PRODUCTS))
                                          (the (dispatch (QuantityChange 1 1) init_state)))))
   \<and> (\<exists>p\<in>set PRODUCTS. mk_item (hd PRODUCTS) 2 = mk_item p 2)"
proof -
  let ?s = "the (dispatch (AddToCart (hd PRODUCTS)) (the (dispatch (QuantityChange 1 1) init_state)))"
  have m: "mk_item (hd PRODUCTS) 2 \<in> set (cart ?s)" by (simp add: cart_defs)
  have "mk_item (hd PRODUCTS) 2 = gift_item \<or>
        (\<exists>p\<in>set PRODUCTS. mk_item (hd PRODUCTS) 2 = mk_item p (quantity (mk_item (hd PRODUCTS) 2))
           \<and> 1 \<le> quantity (mk_item (hd PRODUCTS) 2))"
    by (rule ui_cart_line_type [OF ui_scenario1_reachable m])
  then have "\<exists>p\<in>set PRODUCTS. mk_item (hd PRODUCTS) 2 = mk_item p 2"
    by (auto simp: cart_defs)
  with m ui_scenario1_reachable show ?thesis by simp
qed

subsection \<open>Clicks about different products commute\<close>

lemma abs_step_commute:
  "event_key e1 \<noteq> event_key e2 \<Longrightarrow> abs_step e1 (abs_step e2 a) = abs_step e2 (abs_step e1 a)"
  by (cases a; cases e1; cases e2)
    (auto simp: add_abs_def update_abs_def remove_abs_def pending_of_def fun_upd_twist fun_eq_iff
      split: option.split)

lemma abs_of_dispatch:
  "app_inv s \<Longrightarrow> abs_of (the (dispatch e s)) = abs_step e (abs_of s) \<and> app_inv (the (dispatch e s))"
  using dispatch_abs_step [of s e "the (dispatch e s)"] dispatch_app_inv [of s e "the (dispatch e s)"]
  by (simp add: dispatch_eq)

text \<open>
  C20.  Clicks about different products commute in the abstract cart:
  from a reachable state, handling two events about different product ids
  in either order gives the same quantities and pending quantities.  The
  array itself may differ: two new products are appended in the order
  they were added, as the witness shows.
\<close>

theorem distinct_products_commute:
  assumes r: "reachable s" and k: "event_key e1 \<noteq> event_key e2"
  shows "abs_of (the (run [e1, e2] s)) = abs_of (the (run [e2, e1] s))"
proof -
  have inv: "app_inv s" using r by (rule reachable_app_inv)
  have "abs_of (the (run [e1, e2] s)) = abs_step e2 (abs_step e1 (abs_of s))"
    using abs_of_dispatch [OF inv, of e1] abs_of_dispatch [of "the (dispatch e1 s)" e2]
    by (simp add: run_eq)
  moreover have "abs_of (the (run [e2, e1] s)) = abs_step e1 (abs_step e2 (abs_of s))"
    using abs_of_dispatch [OF inv, of e2] abs_of_dispatch [of "the (dispatch e2 s)" e1]
    by (simp add: run_eq)
  ultimately show ?thesis using abs_step_commute [OF k] by simp
qed

theorem distinct_products_commute_witness:
  "reachable init_state \<and> event_key (AddToCart (PRODUCTS ! 0)) \<noteq> event_key (AddToCart (PRODUCTS ! 1))
   \<and> abs_of (the (run [AddToCart (PRODUCTS ! 0), AddToCart (PRODUCTS ! 1)] init_state))
     = abs_of (the (run [AddToCart (PRODUCTS ! 1), AddToCart (PRODUCTS ! 0)] init_state))
   \<and> cart (the (run [AddToCart (PRODUCTS ! 0), AddToCart (PRODUCTS ! 1)] init_state))
     \<noteq> cart (the (run [AddToCart (PRODUCTS ! 1), AddToCart (PRODUCTS ! 0)] init_state))"
proof -
  have k: "event_key (AddToCart (PRODUCTS ! 0)) \<noteq> event_key (AddToCart (PRODUCTS ! 1))"
    by (simp add: PRODUCTS_def)
  have "cart (the (run [AddToCart (PRODUCTS ! 0), AddToCart (PRODUCTS ! 1)] init_state))
     \<noteq> cart (the (run [AddToCart (PRODUCTS ! 1), AddToCart (PRODUCTS ! 0)] init_state))"
    by (simp add: cart_defs)
  with distinct_products_commute [OF reachable_init k] reachable_init k show ?thesis by simp
qed

end
