(* ===== verification/Spec2Isabelle.thy ===== *)
theory Spec2Isabelle
  imports Laws
begin

text \<open>
  \<^bold>\<open>A verified model of the shopping cart of \<open>src/src/App.js\<close>.\<close>

  \<^bold>\<open>The program.\<close>  One React component, \<open>App\<close>, keeps three pieces of
  state with \<open>useState\<close>: the cart (an array of line items
  \<open>{ ...product, quantity }\<close>), the pending quantity of each product
  (an object keyed by id) and the flag \<open>giftAdded\<close>.  Four click handlers
  (\<open>handleQuantityChange\<close>, \<open>addToCart\<close>, \<open>updateCartQuantity\<close>,
  \<open>removeFromCart\<close>) queue state updates; the subtotal is derived from the
  cart on every render; an effect with dependencies \<open>[subtotal, cart]\<close>
  appends the free gift when the subtotal reaches \<open>THRESHOLD\<close> and removes
  it when it falls below; the render shows the catalog, a progress bar,
  a message, a banner and the cart with buttons for every line but the
  gift's.

  \<^bold>\<open>Theories, in import order.\<close>
  \<^item> \<open>Cart_Prelude\<close>: the fact collections \<open>cart_defs\<close> (what a
    concrete evaluation unfolds) and \<open>keeps_wf\<close> (one-step preservation
    lemmas), and list facts for \<open>reduce\<close>, key-preserving \<open>map\<close>,
    \<open>filter\<close> and \<open>find\<close> over arrays of records.
  \<^item> \<open>Catalog\<close> (lines 4--12): records \<open>product\<close> and its extension
    \<open>item\<close> (the spread \<open>{ ...product, quantity }\<close> is \<open>mk_item\<close>), the
    constants \<open>PRODUCTS\<close>, \<open>FREE_GIFT\<close>, \<open>THRESHOLD\<close> and the gift line
    \<open>gift_item\<close>.  JavaScript numbers are \<open>int\<close>: every value clicks
    can produce is an integer far below \<open>2^53\<close>, where doubles are
    exact; arbitrary events with huge deltas could pass it, where doubles
    round and the model does not.
  \<^item> \<open>Cart\<close> (lines 19--29, 43--71): \<open>subtotal\<close>, \<open>hasGift\<close> and each
    function passed to \<open>setCart\<close> as a pure updater
    (\<open>addToCart_upd\<close>, \<open>updateCartQuantity_upd\<close>, \<open>removeFromCart_upd\<close>,
    \<open>add_gift\<close>, \<open>drop_gift\<close>); the well-formedness \<open>cart_wf\<close> (I1, I3),
    its preservation by every updater, the behaviour of each branch, and
    the map \<open>cart_qty\<close> (product id to quantity) with the operations the
    three user updaters perform on it.
  \<^item> \<open>Quantities\<close> (lines 34--39, 42, 91): the pending quantities as a
    map \<open>int \<rightharpoonup> int\<close>, the JavaScript default \<open>|| 1\<close> as \<open>js_or_one\<close>
    (missing key and \<open>0\<close> are falsy), the updater of
    \<open>handleQuantityChange\<close> and the invariant I4.
  \<^item> \<open>App\<close> (lines 14--72): the state record \<open>app_state\<close>; a queued
    update is a value of \<open>update\<close>, and \<open>commit\<close> applies a list of them
    in order, as React applies queued updaters.  Each handler is the list
    of updates it queues from the rendered state; \<open>promotion_effect\<close> is
    the effect body and \<open>promote\<close> one run of it followed by its commit.
  \<^item> \<open>Runtime\<close>: React's scheduling.  \<open>dispatch\<close> handles one click:
    commit the handler's updates and, if one of them replaced the cart
    (the effect's dependencies changed), run the loop \<open>settle\<close>, which
    re-runs the effect after each of its own commits until a run queues
    nothing.  \<open>mount\<close> is the first render; \<open>reachable\<close> the states of
    any sequence of events after it; \<open>painted\<close> the frames written to the
    DOM by a click's commit, before the effect.
  \<^item> \<open>Dom\<close> (lines 74--165): the element tree \<open>App\<close> returns,
    \<open>app_dom\<close>, built from \<open>product_node\<close> (one catalog row),
    \<open>message_text\<close> and \<open>cart_node\<close> (one cart line) with the tags,
    class names, keys, \<open>onClick\<close> handlers and text nodes of the JSX;
    the emoji and the rupee sign are named glyphs, and
    \<open>{cond && <X/>}\<close> is a list of zero or one children.  \<open>clicks\<close>
    and \<open>texts\<close> read the buttons and the text nodes off the tree.
  \<^item> \<open>View\<close>: \<open>render\<close>, the displayed values as a record; the clicks
    a user can make, \<open>ui_events\<close>, defined as the \<open>onClick\<close> handlers of
    the page's buttons; the states \<open>ui_reachable\<close> by such clicks, and
    the invariant that every line there is a catalog product or exactly
    the gift line.
  \<^item> \<open>Refinement\<close>: an abstract cart, a map from product id to quantity
    with the pending quantities, and its step function \<open>abs_step\<close>
    performing the code's operations on the map (its update clamps at 1
    as the code does); \<open>abs_of\<close> forgets the array order and the gift
    line.  Every handled event simulates one abstract step, and in
    click-reachable states the subtotal is the catalog-priced sum over
    the abstract cart.
  \<^item> \<open>Laws\<close>: algebraic laws of the handlers over \<open>dispatch\<close>:
    "+" then "-" undoes itself on a cart line and on a product row, ids
    without a cart line are no-ops, every line of a click-reachable state
    has one of two shapes, and events about different products commute
    in the abstract cart.
  \<^item> This theory: the properties that span components, the missing
    guards of \<open>addToCart\<close> and \<open>updateCartQuantity\<close>, and the scenarios
    of the specification evaluated by the kernel.

  \<^bold>\<open>Fuel.\<close>  \<open>settle\<close> counts effect runs, and \<open>dispatch\<close> gives it
  \<open>effect_fuel = 2\<close>.  That is exactly enough: a run either finds the
  cart consistent and queues nothing, or adds or removes the gift, after
  which the next run finds it consistent (\<open>promote_effect_done\<close>).  So
  \<open>settle 2\<close> always returns (\<open>settle_Suc_Suc\<close>), and \<open>dispatch\<close> is
  total (\<open>dispatch_eq\<close>).

  \<^bold>\<open>What is proved.\<close>  In every reachable state, under arbitrary
  events and not only those the view offers: the promotion invariant P1,
  unique ids P2, positive quantities P3 and I4, and a truthful banner flag.
  The effect is idempotent (P4), removal of the gift is a no-op (P5), and
  the component refines the abstract cart machine.  Frames committed
  before the effect already satisfy I1, I3 and I4; only I2 waits for the
  effect.  Idempotence also makes the double effect run of React's
  development mode harmless.  In click-reachable states every line is a
  catalog line or exactly \<open>{ ...FREE_GIFT, quantity: 1 }\<close> (I5) and the
  progress bar stays within 0--100 per cent.  "+" followed by "-" gives
  back the previous state on a cart line (even when "+" crossed the
  threshold and brought the gift: catalog prices are non-negative, so the
  subtotal after "-" is the old one) and the previous page on a product
  row (the quantities object may gain an explicit 1, which renders as the
  default).  Clicks that name an id without a cart line change nothing,
  and two clicks about different products give the same abstract cart in
  either order, though the array order of the lines may differ.  On the
  page: two states give the same tree exactly when \<open>render\<close> gives the
  same values, so what is proved of \<open>render\<close> holds of the page;
  "Your cart is empty." and the total exclude each other; and in
  click-reachable states the earned message, the banner and the gift's
  line are shown together.

  \<^bold>\<open>Findings.\<close>  \<open>updateCartQuantity\<close> clamps at 1, so its filter is
  dead code and "-" never removes a line (the specification says it does);
  the rule is an effect, so a frame with a full bar and no gift is
  committed to the DOM (and painted under React 17 and earlier, which run
  effects after paint; \<open>painted_frame_without_gift\<close>); \<open>addToCart\<close>
  and \<open>updateCartQuantity\<close> accept the gift's id and raise its quantity
  in every reachable state that holds it, since only the view keeps them
  from being called with it.

  \<^bold>\<open>Not modelled.\<close>  The stylesheet \<open>App.css\<close> (not among the
  sources; class names are kept as attributes); the printing of the
  progress width as a decimal string (the width is kept as the exact
  rational, which the printed double approximates to the last place);
  batching of several clicks into one render, which React does not do
  for discrete click events: each is flushed before the next, which
  \<open>dispatch\<close> models, so \<open>addToCart\<close> always reads the committed
  quantities; \<open>export default App\<close> and the mounting by React DOM, which
  are library code; JavaScript number precision beyond \<open>2^53\<close>.

  \<^bold>\<open>Plan for later work.\<close>  The rendered rows and total as functions
  of the abstract cart (the order of the lines aside).
\<close>

subsection \<open>Invariants of every reachable state\<close>

text \<open>
  C1.  Promotion invariant (P1): in every state reachable by any sequence
  of events after the mount, the gift is in the cart exactly when the
  subtotal of the other lines reaches the threshold.
\<close>

theorem reachable_promotion_invariant:
  "reachable s \<Longrightarrow> hasGift (cart s) \<longleftrightarrow> THRESHOLD \<le> subtotal (cart s)"
  by (drule reachable_app_inv) (simp add: app_inv_def promo_consistent_def)

text \<open>C2.  No duplicates (P2): no two cart lines of a reachable state share a product id.\<close>

theorem reachable_no_duplicates:
  "reachable s \<Longrightarrow> distinct (map pid (cart s))"
  by (drule reachable_app_inv) (simp add: app_inv_def cart_wf_def)

text \<open>
  C3.  Positive quantities (P3, I3, I4): in a reachable state every cart
  line has quantity at least 1, and so has every pending quantity.
\<close>

theorem reachable_quantities_positive:
  "reachable s \<Longrightarrow> list_all (\<lambda>x. 1 \<le> quantity x) (cart s) \<and> (\<forall>v\<in>ran (quantities s). 1 \<le> v)"
  by (drule reachable_app_inv) (simp add: app_inv_def cart_wf_def quantities_wf_def)

text \<open>
  C11.  The banner flag tells the truth: in a reachable state
  \<open>giftAdded\<close> holds exactly when the gift is in the cart.
\<close>

theorem reachable_giftAdded_iff:
  "reachable s \<Longrightarrow> giftAdded s = hasGift (cart s)"
  by (drule reachable_app_inv) (simp add: app_inv_def)

subsection \<open>Witnesses\<close>

text \<open>The state of scenario 1: two laptops pending, added once.\<close>

theorem reachable_promotion_invariant_witness:
  "reachable (the (run [QuantityChange 1 1, AddToCart (hd PRODUCTS)] init_state)) \<and>
   hasGift (cart (the (run [QuantityChange 1 1, AddToCart (hd PRODUCTS)] init_state)))"
proof -
  let ?s = "the (run [QuantityChange 1 1, AddToCart (hd PRODUCTS)] init_state)"
  have r: "reachable ?s" by (rule reachable_run_init)
  have "THRESHOLD \<le> subtotal (cart ?s)" by (simp add: cart_defs)
  with reachable_promotion_invariant [OF r] r show ?thesis by simp
qed

theorem reachable_no_duplicates_witness:
  "reachable (the (run [AddToCart (hd PRODUCTS), AddToCart (hd PRODUCTS)] init_state)) \<and>
   distinct (map pid (cart (the (run [AddToCart (hd PRODUCTS), AddToCart (hd PRODUCTS)] init_state))))"
  using reachable_no_duplicates [OF reachable_run_init [of "[AddToCart (hd PRODUCTS), AddToCart (hd PRODUCTS)]"]]
    reachable_run_init [of "[AddToCart (hd PRODUCTS), AddToCart (hd PRODUCTS)]"]
  by simp

theorem reachable_quantities_positive_witness:
  "reachable (the (run [QuantityChange 3 (-1), AddToCart (PRODUCTS ! 2)] init_state)) \<and>
   list_all (\<lambda>x. 1 \<le> quantity x) (cart (the (run [QuantityChange 3 (-1), AddToCart (PRODUCTS ! 2)] init_state)))"
  using reachable_quantities_positive [OF reachable_run_init [of "[QuantityChange 3 (-1), AddToCart (PRODUCTS ! 2)]"]]
    reachable_run_init [of "[QuantityChange 3 (-1), AddToCart (PRODUCTS ! 2)]"]
  by simp

theorem reachable_giftAdded_iff_witness:
  "reachable (the (run [QuantityChange 1 1, AddToCart (hd PRODUCTS)] init_state)) \<and>
   giftAdded (the (run [QuantityChange 1 1, AddToCart (hd PRODUCTS)] init_state))"
proof -
  let ?s = "the (run [QuantityChange 1 1, AddToCart (hd PRODUCTS)] init_state)"
  have r: "reachable ?s" by (rule reachable_run_init)
  have "hasGift (cart ?s)" by (simp add: cart_defs)
  with reachable_giftAdded_iff [OF r] r show ?thesis by simp
qed

subsection \<open>The scenarios of the specification\<close>

text \<open>
  Scenario 1: two laptops (pending quantity raised to 2, then
  "Add to Cart") give a subtotal of 1000; the effect appends the gift,
  sets the banner flag, and the bar is full.
\<close>

theorem scenario_two_laptops:
  "\<exists>s. run [QuantityChange 1 1, AddToCart (PRODUCTS ! 0)] init_state = Some s
     \<and> cart s = [mk_item (PRODUCTS ! 0) 2, gift_item] \<and> subtotal (cart s) = 1000
     \<and> giftAdded s \<and> progress_width (render s) = 100 \<and> message (render s) = Earned"
  by (simp add: cart_defs)

text \<open>
  Scenario 2: one smartphone gives a subtotal of 300, no gift, a
  bar at 30 per cent and the message that 700 more unlock the gift.
\<close>

theorem scenario_one_smartphone:
  "\<exists>s. run [AddToCart (PRODUCTS ! 1)] init_state = Some s
     \<and> cart s = [mk_item (PRODUCTS ! 1) 1] \<and> subtotal (cart s) = 300 \<and> \<not> giftAdded s
     \<and> progress_width (render s) = 30 \<and> message (render s) = AddMore 700"
  by (simp add: cart_defs)

text \<open>
  Scenario 3 as the code runs it: after two laptops, the first "-"
  lowers the laptop line to 1 and the effect removes the gift (subtotal
  500); the second "-" is clamped and changes nothing.  The laptop stays
  in the cart and the subtotal stays 500, where the specification expects
  the line removed and a subtotal of 0.
\<close>

theorem scenario_decrement_keeps_line:
  "\<exists>s. run [QuantityChange 1 1, AddToCart (PRODUCTS ! 0),
            UpdateCartQuantity 1 (-1), UpdateCartQuantity 1 (-1)] init_state = Some s
     \<and> cart s = [mk_item (PRODUCTS ! 0) 1] \<and> subtotal (cart s) = 500 \<and> \<not> giftAdded s"
  by (simp add: cart_defs)

text \<open>
  Scenario 4: two clicks on "+" of the headphones row make its
  pending quantity 3; "Add to Cart" then adds a headphones line of
  quantity 3, worth 300.
\<close>

theorem scenario_pending_three:
  "\<exists>s. run [QuantityChange 3 1, QuantityChange 3 1, AddToCart (PRODUCTS ! 2)] init_state = Some s
     \<and> row_pending (product_rows (render s) ! 2) = 3
     \<and> cart s = [mk_item (PRODUCTS ! 2) 3] \<and> subtotal (cart s) = 300"
  by (simp add: cart_defs)

text \<open>
  Scenario 5: adding a laptop twice with pending quantity 1 yields
  one laptop line of quantity 2, not two lines; its subtotal of 1000 also
  brings the gift.
\<close>

theorem scenario_add_twice_merges:
  "\<exists>s. run [AddToCart (PRODUCTS ! 0), AddToCart (PRODUCTS ! 0)] init_state = Some s
     \<and> cart s = [mk_item (PRODUCTS ! 0) 2, gift_item]"
  by (simp add: cart_defs)

subsection \<open>Behaviour the specification does not cover\<close>

text \<open>
  A handler call that only touches the gift's line leaves the subtotal,
  and hence the promotion rule, where they were: the effect then queues
  nothing.
\<close>

lemma subtotal_gift_line_update:
  "subtotal (map (\<lambda>x. if pid x = GIFT_ID then x\<lparr>quantity := h (quantity x)\<rparr> else x) c) = subtotal c"
proof -
  have "filter (\<lambda>x. pid x \<noteq> GIFT_ID) (map (\<lambda>x. if pid x = GIFT_ID then x\<lparr>quantity := h (quantity x)\<rparr> else x) c)
        = filter (\<lambda>x. pid x \<noteq> GIFT_ID) c"
    by (induction c) auto
  then show ?thesis by (simp add: subtotal_def)
qed

lemma promote_gift_line_step:
  assumes inv: "app_inv s" and g: "hasGift (cart s)" and g': "hasGift c'"
    and st: "subtotal c' = subtotal (cart s)"
  shows "promote (s\<lparr>cart := c'\<rparr>) = s\<lparr>cart := c'\<rparr>"
proof (rule promote_id)
  have "THRESHOLD \<le> subtotal (cart s)"
    using inv g by (simp add: app_inv_def promo_consistent_def)
  with g' st show "promo_consistent (s\<lparr>cart := c'\<rparr>)"
    by (simp add: promo_consistent_def)
qed

lemma gift_key_hasGift: "cart_qty c GIFT_ID = Some v \<Longrightarrow> hasGift c"
  using cart_qty_None_iff [of c GIFT_ID] by (auto simp: hasGift_iff)

text \<open>
  C13.  \<open>addToCart\<close> has no guard against the promotional item: in every
  reachable state whose cart holds the gift with quantity \<open>v\<close>, a call
  with \<open>FREE_GIFT\<close> raises the gift line to \<open>v\<close> plus the pending
  quantity (at least 1), and the effect leaves it there.  From the
  gift line \<open>{ ...FREE_GIFT, quantity: 1 }\<close> of a click-reachable state
  it makes quantity 2.  Only the view keeps this from happening, since
  \<open>FREE_GIFT\<close> is not in \<open>PRODUCTS\<close>; the specification says the
  operation is disallowed for the promotional item.
\<close>

theorem addToCart_gift_unguarded:
  assumes r: "reachable s" and v: "cart_qty (cart s) GIFT_ID = Some v"
  shows "cart_qty (cart (the (dispatch (AddToCart FREE_GIFT) s))) GIFT_ID
           = Some (v + js_or_one (quantities s GIFT_ID))"
proof -
  let ?q = "js_or_one (quantities s GIFT_ID)"
  let ?c = "addToCart_upd FREE_GIFT ?q (cart s)"
  have inv: "app_inv s" using r by (rule reachable_app_inv)
  have g: "hasGift (cart s)" using v by (rule gift_key_hasGift)
  have "promote (s\<lparr>cart := ?c\<rparr>) = s\<lparr>cart := ?c\<rparr>"
    using inv g by (intro promote_gift_line_step) (simp_all add: hasGift_addToCart_upd subtotal_addToCart_gift)
  then have "the (dispatch (AddToCart FREE_GIFT) s) = s\<lparr>cart := ?c\<rparr>"
    by (simp add: dispatch_eq addToCart_def touches_cart_def commit_def)
  with v show ?thesis by (simp add: cart_qty_addToCart add_abs_def)
qed

text \<open>
  C14.  "Add to Cart" leaves the pending quantities as they were
  (section 9 of the specification: the selector is not reset), whatever
  the product and the state.
\<close>

theorem addToCart_keeps_pending:
  "quantities (the (dispatch (AddToCart p) s)) = quantities s"
  by (simp add: dispatch_eq addToCart_def touches_cart_def Let_def)

text \<open>
  C24.  \<open>updateCartQuantity\<close> has no guard against the gift's id either:
  in every reachable state whose cart holds the gift with quantity
  \<open>v\<close>, a call with the gift's id and delta \<open>d\<close> sets the gift line to
  \<open>max (v + d) 1\<close>, and the effect leaves it there; "+" on the gift
  line of a click-reachable state makes it 2.  The specification only
  says the view never makes this call.
\<close>

theorem updateCartQuantity_gift_unguarded:
  assumes r: "reachable s" and v: "cart_qty (cart s) GIFT_ID = Some v"
  shows "cart_qty (cart (the (dispatch (UpdateCartQuantity GIFT_ID d) s))) GIFT_ID = Some (max (v + d) 1)"
proof -
  let ?c = "updateCartQuantity_upd GIFT_ID d (cart s)"
  have inv: "app_inv s" using r by (rule reachable_app_inv)
  then have wf: "cart_wf (cart s)" by (simp add: app_inv_def)
  have g: "hasGift (cart s)" using v by (rule gift_key_hasGift)
  have "subtotal ?c = subtotal (cart s)"
    using wf subtotal_gift_line_update [of "\<lambda>q. max (q + d) 1" "cart s"]
    by (simp add: updateCartQuantity_upd_map)
  then have "promote (s\<lparr>cart := ?c\<rparr>) = s\<lparr>cart := ?c\<rparr>"
    using inv g wf by (intro promote_gift_line_step) (simp_all add: hasGift_updateCartQuantity_upd)
  then have "the (dispatch (UpdateCartQuantity GIFT_ID d) s) = s\<lparr>cart := ?c\<rparr>"
    by (simp add: dispatch_eq updateCartQuantity_def touches_cart_def commit_def)
  with v wf show ?thesis by (simp add: cart_qty_updateCartQuantity update_abs_def)
qed

subsection \<open>Witnesses of the unguarded calls\<close>

text \<open>The state of scenario 1, where the gift line has quantity 1.\<close>

lemma scenario1_gift_qty:
  "reachable (the (run [QuantityChange 1 1, AddToCart (hd PRODUCTS)] init_state))
   \<and> cart_qty (cart (the (run [QuantityChange 1 1, AddToCart (hd PRODUCTS)] init_state))) GIFT_ID = Some 1"
proof
  show "reachable (the (run [QuantityChange 1 1, AddToCart (hd PRODUCTS)] init_state))"
    by (rule reachable_run_init)
  show "cart_qty (cart (the (run [QuantityChange 1 1, AddToCart (hd PRODUCTS)] init_state))) GIFT_ID = Some 1"
    by (simp add: cart_defs cart_qty_def)
qed

theorem addToCart_gift_unguarded_witness:
  "cart_qty (cart (the (dispatch (AddToCart FREE_GIFT)
     (the (run [QuantityChange 1 1, AddToCart (hd PRODUCTS)] init_state))))) GIFT_ID = Some 2"
proof -
  let ?s = "the (run [QuantityChange 1 1, AddToCart (hd PRODUCTS)] init_state)"
  have "quantities ?s GIFT_ID = None" by (simp add: cart_defs)
  with addToCart_gift_unguarded [of ?s 1] scenario1_gift_qty show ?thesis
    by (simp add: js_or_one_def)
qed

theorem updateCartQuantity_gift_unguarded_witness:
  "cart_qty (cart (the (dispatch (UpdateCartQuantity GIFT_ID 1)
     (the (run [QuantityChange 1 1, AddToCart (hd PRODUCTS)] init_state))))) GIFT_ID = Some 2"
  using updateCartQuantity_gift_unguarded [of "the (run [QuantityChange 1 1, AddToCart (hd PRODUCTS)] init_state)" 1 1]
    scenario1_gift_qty
  by simp

end
